theory Spec2Isabelle
  imports Complex_Main "HOL-Library.Multiset"
begin

section \<open>Python strings\<close>

text \<open>
  A Python \<^verbatim>\<open>str\<close> is a sequence of Unicode code points and \<^verbatim>\<open>len\<close> counts code
  points, so a string is modelled as the list of its code points. ASCII literals of the
  source are written \<open>ascii ''...''\<close>; the three emoji of the reply templates are given by
  their code points.
\<close>

type_synonym str = "nat list"

definition ascii :: "string \<Rightarrow> str" where
  "ascii s = map of_char s"

text \<open>
  \<^verbatim>\<open>str.strip()\<close> without argument removes leading and trailing whitespace; these are the
  code points for which CPython's \<^verbatim>\<open>str.isspace\<close> holds.
\<close>

definition isspace :: "nat \<Rightarrow> bool" where
  "isspace c \<longleftrightarrow>
     (9 \<le> c \<and> c \<le> 13) \<or> (28 \<le> c \<and> c \<le> 32) \<or> c = 133 \<or> c = 160 \<or> c = 5760 \<or>
     (8192 \<le> c \<and> c \<le> 8202) \<or> c = 8232 \<or> c = 8233 \<or> c = 8239 \<or> c = 8287 \<or> c = 12288"

definition strip :: "str \<Rightarrow> str" where
  "strip s = rev (dropWhile isspace (rev (dropWhile isspace s)))"

text \<open>
  \<^verbatim>\<open>str.lower()\<close> and \<^verbatim>\<open>str.title()\<close>. On a string of ASCII characters they are the
  case mapping of the ASCII letters, written out below. On any other string the result
  comes from the Unicode tables and the context rules of the interpreter, which are not
  among the sources: there the two functions are those of the parameter \<open>py\<close>, about
  which nothing is assumed.
\<close>

record interpreter =
  str_lower :: "str \<Rightarrow> str"
  str_title :: "str \<Rightarrow> str"

definition isascii :: "str \<Rightarrow> bool" where
  "isascii s = list_all (\<lambda>c. c < 128) s"

definition isupper_cp :: "nat \<Rightarrow> bool" where
  "isupper_cp c \<longleftrightarrow> 65 \<le> c \<and> c \<le> 90"

definition islower_cp :: "nat \<Rightarrow> bool" where
  "islower_cp c \<longleftrightarrow> 97 \<le> c \<and> c \<le> 122"

definition lower_cp :: "nat \<Rightarrow> nat" where
  "lower_cp c = (if isupper_cp c then c + 32 else c)"

definition upper_cp :: "nat \<Rightarrow> nat" where
  "upper_cp c = (if islower_cp c then c - 32 else c)"

definition lower :: "interpreter \<Rightarrow> str \<Rightarrow> str" where
  "lower py s = (if isascii s then map lower_cp s else str_lower py s)"

text \<open>
  \<^verbatim>\<open>str.title()\<close> on ASCII: a character that follows a cased character is lower-cased,
  any other character is title-cased.
\<close>

fun title_from :: "bool \<Rightarrow> str \<Rightarrow> str" where
  "title_from previous_is_cased [] = []"
| "title_from previous_is_cased (c # cs) =
     (if previous_is_cased then lower_cp c else upper_cp c)
       # title_from (isupper_cp c \<or> islower_cp c) cs"

definition title :: "interpreter \<Rightarrow> str \<Rightarrow> str" where
  "title py s = (if isascii s then title_from False s else str_title py s)"

text \<open>\<^verbatim>\<open>s.split(sep)\<close> for a one-character separator: every occurrence cuts; the empty
  string gives one empty field.\<close>

fun split :: "nat \<Rightarrow> str \<Rightarrow> str list" where
  "split sep [] = [[]]"
| "split sep (c # cs) =
     (if c = sep then [] # split sep cs
      else (case split sep cs of
              [] \<Rightarrow> [[c]]
            | tok # toks \<Rightarrow> (c # tok) # toks))"

text \<open>\<^verbatim>\<open>sep.join(parts)\<close>.\<close>

fun join :: "str \<Rightarrow> str list \<Rightarrow> str" where
  "join sep [] = []"
| "join sep [p] = p"
| "join sep (p # q # ps) = p @ sep @ join sep (q # ps)"

text \<open>\<^verbatim>\<open>sub in s\<close> on strings: \<open>sub\<close> occurs in \<open>s\<close> as a contiguous run.\<close>

fun startswith :: "str \<Rightarrow> str \<Rightarrow> bool" where
  "startswith s [] = True"
| "startswith [] (b # bs) = False"
| "startswith (a # as) (b # bs) = (a = b \<and> startswith as bs)"

fun str_contains :: "str \<Rightarrow> str \<Rightarrow> bool" where
  "str_contains [] sub = (sub = [])"
| "str_contains (c # cs) sub = (startswith (c # cs) sub \<or> str_contains cs sub)"

text \<open>\<^verbatim>\<open>xs[-n:]\<close> for \<open>n > 0\<close>: the last \<open>n\<close> elements, the whole list when it is shorter.\<close>

definition last_n :: "nat \<Rightarrow> 'a list \<Rightarrow> 'a list" where
  "last_n n xs = drop (length xs - n) xs"

section \<open>Types and configuration\<close>

text \<open>\<^verbatim>\<open>app/types.py\<close>: the message roles and the message dictionary.\<close>

datatype MessageRole = USER | ASSISTANT | SYSTEM

record MessageDict =
  role :: MessageRole
  content :: str

text \<open>\<^verbatim>\<open>app/config.py\<close>: the settings the modelled code reads, with their defaults.
  Floats are modelled by the reals they denote.\<close>

record Settings =
  TELEGRAM_ALLOWED_USER_IDS :: str
  OPENAI_MODEL :: str
  OPENAI_TEMPERATURE :: real
  OPENAI_MAX_TOKENS :: int
  MAX_CONVERSATION_HISTORY :: nat

definition default_settings :: Settings where
  "default_settings =
     \<lparr>TELEGRAM_ALLOWED_USER_IDS = [],
      OPENAI_MODEL = ascii ''gpt-4-turbo-preview'',
      OPENAI_TEMPERATURE = 7 / 10,
      OPENAI_MAX_TOKENS = 800,
      MAX_CONVERSATION_HISTORY = 10\<rparr>"

section \<open>The OpenAI service\<close>

text \<open>
  Exceptions are values. The remote chat-completion call either raises or returns a
  response, of which the code reads \<^verbatim>\<open>response.choices[i].message.content\<close>: a response
  is the list of its choices' contents, each a string or \<^verbatim>\<open>None\<close>. The client is a
  function from the request it is sent to what comes back.
\<close>

datatype exn = OpenAIError | ValueError | IndexError | OtherError

record request =
  req_model :: str
  req_messages :: "MessageDict list"
  req_temperature :: real
  req_max_tokens :: int

datatype completion = Raises exn | ChatCompletion "str option list"

type_synonym client = "request \<Rightarrow> completion"

record OpenAIService =
  self_model :: str
  self_temperature :: real
  self_max_tokens :: int

definition OpenAIService_init :: "Settings \<Rightarrow> OpenAIService" where
  "OpenAIService_init settings =
     \<lparr>self_model = OPENAI_MODEL settings,
      self_temperature = OPENAI_TEMPERATURE settings,
      self_max_tokens = OPENAI_MAX_TOKENS settings\<rparr>"

text \<open>Python's \<^verbatim>\<open>a or b\<close> on an optional number: \<^verbatim>\<open>None\<close> and zero are both falsy.\<close>

definition or_float :: "real option \<Rightarrow> real \<Rightarrow> real" where
  "or_float a b = (case a of None \<Rightarrow> b | Some v \<Rightarrow> if v = 0 then b else v)"

definition or_int :: "int option \<Rightarrow> int \<Rightarrow> int" where
  "or_int a b = (case a of None \<Rightarrow> b | Some v \<Rightarrow> if v = 0 then b else v)"

text \<open>\<^verbatim>\<open>try: body except Exception as e: handler(e)\<close>.\<close>

definition try_except :: "exn + 'a \<Rightarrow> (exn \<Rightarrow> exn + 'a) \<Rightarrow> exn + 'a" where
  "try_except body handler = (case body of Inl e \<Rightarrow> handler e | Inr v \<Rightarrow> Inr v)"

text \<open>The keyword arguments \<^verbatim>\<open>complete\<close> passes to \<^verbatim>\<open>chat.completions.create\<close>.\<close>

definition complete_request ::
  "OpenAIService \<Rightarrow> MessageDict list \<Rightarrow> real option \<Rightarrow> int option \<Rightarrow> request" where
  "complete_request self messages temperature max_tokens =
     \<lparr>req_model = self_model self,
      req_messages = messages,
      req_temperature = or_float temperature (self_temperature self),
      req_max_tokens = or_int max_tokens (self_max_tokens self)\<rparr>"

text \<open>\<^verbatim>\<open>OpenAIService.complete\<close>. Both handlers log and re-raise.\<close>

definition OpenAIService_complete ::
  "OpenAIService \<Rightarrow> client \<Rightarrow> MessageDict list \<Rightarrow> real option \<Rightarrow> int option \<Rightarrow> exn + str" where
  "OpenAIService_complete self create messages temperature max_tokens =
     try_except
       (case create (complete_request self messages temperature max_tokens) of
          Raises e \<Rightarrow> Inl e
        | ChatCompletion choices \<Rightarrow>
            (case choices of
               [] \<Rightarrow> Inl IndexError
             | c # _ \<Rightarrow>
                 (case c of
                    None \<Rightarrow> Inl ValueError
                  | Some text \<Rightarrow> Inr (strip text))))
       (\<lambda>e. Inl e)"

definition analyze_intent_system_prompt :: str where
  "analyze_intent_system_prompt = ascii
    (''You are an intent classifier for an AI social media system.\<newline>'' @
     ''\<newline>'' @
     ''Analyze the user's message and classify it into one of these intents:\<newline>'' @
     ''- create_post: User wants to create social media content\<newline>'' @
     ''- edit_image: User wants to edit an image (but no image uploaded yet)\<newline>'' @
     ''- general: General conversation or unclear intent\<newline>'' @
     ''\<newline>'' @
     ''Respond with ONLY the intent name, nothing else.'')"

definition analyze_image_intent_system_prompt :: str where
  "analyze_image_intent_system_prompt = ascii
    (''You are an intent classifier for image-related requests.\<newline>'' @
     ''\<newline>'' @
     ''Analyze the caption and classify it into one of these intents:\<newline>'' @
     ''- edit_only: User wants to edit/modify the image\<newline>'' @
     ''- post_only: User wants to create a social media post about the image\<newline>'' @
     ''- both: User wants both image editing and post creation\<newline>'' @
     ''\<newline>'' @
     ''Respond with ONLY the intent name, nothing else.'')"

definition detect_platforms_system_prompt :: str where
  "detect_platforms_system_prompt = ascii
    (''You are a platform detector for social media content creation.\<newline>'' @
     ''\<newline>'' @
     ''Analyze the request and identify which platforms they want content for.\<newline>'' @
     ''\<newline>'' @
     ''Available platforms: x, linkedin, instagram, youtube, school\<newline>'' @
     ''\<newline>'' @
     ''Respond with a comma-separated list or \"none\" if no specific platform mentioned.\<newline>'' @
     ''Example: \"linkedin\" or \"x,instagram\" or \"none\"\<newline>'')"

text \<open>\<^verbatim>\<open>OpenAIService.analyze_intent\<close>.\<close>

definition analyze_intent_messages :: "str \<Rightarrow> MessageDict list \<Rightarrow> MessageDict list" where
  "analyze_intent_messages text history =
     [\<lparr>role = SYSTEM, content = analyze_intent_system_prompt\<rparr>]
       @ last_n 3 history
       @ [\<lparr>role = USER, content = text\<rparr>]"

definition analyze_intent :: "interpreter \<Rightarrow> OpenAIService \<Rightarrow> client \<Rightarrow> str \<Rightarrow> MessageDict list \<Rightarrow> exn + str" where
  "analyze_intent py self create text history =
     try_except
       (case OpenAIService_complete self create (analyze_intent_messages text history) (Some 0) (Some 20) of
          Inl e \<Rightarrow> Inl e
        | Inr result \<Rightarrow>
            (let intent = strip (lower py result) in
             if intent \<in> set [ascii ''create_post'', ascii ''edit_image'', ascii ''general'']
             then Inr intent
             else Inr (ascii ''general'')))
       (\<lambda>e. Inr (ascii ''general''))"

text \<open>The request of the one completion call in \<^verbatim>\<open>analyze_intent\<close>.\<close>

definition analyze_intent_request :: "OpenAIService \<Rightarrow> str \<Rightarrow> MessageDict list \<Rightarrow> request" where
  "analyze_intent_request self text history =
     complete_request self (analyze_intent_messages text history) (Some 0) (Some 20)"

text \<open>\<^verbatim>\<open>OpenAIService.analyze_image_intent\<close>.\<close>

definition analyze_image_intent_messages :: "str \<Rightarrow> MessageDict list" where
  "analyze_image_intent_messages caption =
     [\<lparr>role = SYSTEM, content = analyze_image_intent_system_prompt\<rparr>,
      \<lparr>role = USER, content = caption\<rparr>]"

definition analyze_image_intent :: "interpreter \<Rightarrow> OpenAIService \<Rightarrow> client \<Rightarrow> str \<Rightarrow> exn + str" where
  "analyze_image_intent py self create caption =
     try_except
       (case OpenAIService_complete self create (analyze_image_intent_messages caption) (Some 0) (Some 20) of
          Inl e \<Rightarrow> Inl e
        | Inr result \<Rightarrow>
            (let intent = strip (lower py result) in
             if intent \<in> set [ascii ''edit_only'', ascii ''post_only'', ascii ''both'']
             then Inr intent
             else Inr (ascii ''edit_only'')))
       (\<lambda>e. Inr (ascii ''edit_only''))"

text \<open>\<^verbatim>\<open>OpenAIService.detect_platforms\<close>.\<close>

definition detect_platforms_messages :: "str \<Rightarrow> MessageDict list" where
  "detect_platforms_messages prompt =
     [\<lparr>role = SYSTEM, content = detect_platforms_system_prompt\<rparr>,
      \<lparr>role = USER, content = prompt\<rparr>]"

definition valid_platforms :: "str list" where
  "valid_platforms =
     [ascii ''x'', ascii ''twitter'', ascii ''linkedin'', ascii ''instagram'',
      ascii ''youtube'', ascii ''school'']"

definition parse_platforms :: "str \<Rightarrow> str list" where
  "parse_platforms result =
     (let platforms = map strip (split 44 result) in
      map (\<lambda>p. if p = ascii ''twitter'' then ascii ''x'' else p)
          (filter (\<lambda>p. p \<in> set valid_platforms) platforms))"

definition detect_platforms :: "interpreter \<Rightarrow> OpenAIService \<Rightarrow> client \<Rightarrow> str \<Rightarrow> exn + str list" where
  "detect_platforms py self create prompt =
     try_except
       (case OpenAIService_complete self create (detect_platforms_messages prompt) (Some 0) (Some 50) of
          Inl e \<Rightarrow> Inl e
        | Inr reply \<Rightarrow>
            (let result = strip (lower py reply) in
             if result = ascii ''none'' then Inr []
             else Inr (parse_platforms result)))
       (\<lambda>e. Inr [])"

section \<open>Platform agents\<close>

text \<open>
  Every agent owns an \<^verbatim>\<open>OpenAIService\<close> and sends the system prompt, the last three
  history turns and the live prompt. Every handler logs and re-raises.
\<close>

definition agent_messages :: "str \<Rightarrow> str \<Rightarrow> MessageDict list \<Rightarrow> MessageDict list" where
  "agent_messages system_prompt prompt history =
     [\<lparr>role = SYSTEM, content = system_prompt\<rparr>]
       @ last_n 3 history
       @ [\<lparr>role = USER, content = prompt\<rparr>]"

definition XAgent_system_prompt :: str where
  "XAgent_system_prompt = ascii
    (''You are an expert X (Twitter) content creator.\<newline>'' @
     ''\<newline>'' @
     ''X POST REQUIREMENTS:\<newline>'' @
     ''- MAXIMUM 280 characters (STRICT LIMIT)\<newline>'' @
     ''- Strong, attention-grabbing opening\<newline>'' @
     ''- Concise and punchy\<newline>'' @
     ''- Clear value or insight\<newline>'' @
     ''- Conversational and authentic\<newline>'' @
     ''- 1-3 hashtags (included in character count)\<newline>'' @
     ''- Use line breaks for readability\<newline>'' @
     ''\<newline>'' @
     ''TONE: Confident, direct, engaging\<newline>'' @
     ''\<newline>'' @
     ''Create an X post. MUST be under 280 characters.'')"

definition MAX_LENGTH :: nat where
  "MAX_LENGTH = 280"

text \<open>\<^verbatim>\<open>XAgent.create_post\<close>: the statements between the completion and the return.\<close>

definition XAgent_enforce_limit :: "str \<Rightarrow> str" where
  "XAgent_enforce_limit post =
     (if length post > MAX_LENGTH then take (MAX_LENGTH - 3) post @ ascii ''...'' else post)"

definition XAgent_create_post ::
  "OpenAIService \<Rightarrow> client \<Rightarrow> str \<Rightarrow> MessageDict list \<Rightarrow> exn + str" where
  "XAgent_create_post self create prompt history =
     try_except
       (case OpenAIService_complete self create (agent_messages XAgent_system_prompt prompt history)
               (Some (7 / 10)) (Some 150) of
          Inl e \<Rightarrow> Inl e
        | Inr post \<Rightarrow> Inr (XAgent_enforce_limit post))
       (\<lambda>e. Inl e)"

definition LinkedInAgent_system_prompt :: str where
  "LinkedInAgent_system_prompt = ascii
    (''You are an expert LinkedIn content creator.\<newline>'' @
     ''\<newline>'' @
     ''LINKEDIN POST CHARACTERISTICS:\<newline>'' @
     ''- Professional yet conversational and authentic\<newline>'' @
     ''- Start with an attention-grabbing hook\<newline>'' @
     ''- Use storytelling and personal insights\<newline>'' @
     ''- Demonstrate thought leadership\<newline>'' @
     ''- Include actionable insights\<newline>'' @
     ''- Short paragraphs with line breaks\<newline>'' @
     ''- End with engagement (question or CTA)\<newline>'' @
     ''- 3-5 relevant hashtags at end\<newline>'' @
     ''- 150-300 words optimal\<newline>'' @
     ''\<newline>'' @
     ''TONE: Professional, confident, educational, engaging\<newline>'' @
     ''\<newline>'' @
     ''Create a LinkedIn post based on the user's request.'')"

definition LinkedInAgent_create_post ::
  "OpenAIService \<Rightarrow> client \<Rightarrow> str \<Rightarrow> MessageDict list \<Rightarrow> exn + str" where
  "LinkedInAgent_create_post self create prompt history =
     try_except
       (OpenAIService_complete self create (agent_messages LinkedInAgent_system_prompt prompt history)
          (Some (7 / 10)) (Some 800))
       (\<lambda>e. Inl e)"

definition InstagramAgent_system_prompt :: str where
  "InstagramAgent_system_prompt = ascii
    (''You are an expert Instagram content creator.\<newline>'' @
     ''\<newline>'' @
     ''INSTAGRAM CAPTION CHARACTERISTICS:\<newline>'' @
     ''- Visual-first: complement the image\<newline>'' @
     ''- Strong opening hook\<newline>'' @
     ''- Authentic and relatable\<newline>'' @
     ''- Storytelling when appropriate\<newline>'' @
     ''- 3-5 emojis naturally integrated\<newline>'' @
     ''- Line breaks for readability\<newline>'' @
     ''- End with CTA or question\<newline>'' @
     ''- 5-10 relevant hashtags at end\<newline>'' @
     ''- 125-150 words ideal\<newline>'' @
     ''\<newline>'' @
     ''TONE: Authentic, personal, inspirational\<newline>'' @
     ''\<newline>'' @
     ''Create an Instagram caption.'')"

definition InstagramAgent_create_post ::
  "OpenAIService \<Rightarrow> client \<Rightarrow> str \<Rightarrow> MessageDict list \<Rightarrow> exn + str" where
  "InstagramAgent_create_post self create prompt history =
     try_except
       (OpenAIService_complete self create (agent_messages InstagramAgent_system_prompt prompt history)
          (Some (7 / 10)) (Some 600))
       (\<lambda>e. Inl e)"

definition YouTubeAgent_system_prompt :: str where
  "YouTubeAgent_system_prompt = ascii
    (''You are an expert YouTube content creator.\<newline>'' @
     ''\<newline>'' @
     ''YOUTUBE CONTENT STRUCTURE:\<newline>'' @
     ''1. Title (60-70 characters, attention-grabbing, keyword-rich)\<newline>'' @
     ''2. Description (SEO-optimized, 150-300 words)\<newline>'' @
     ''\<newline>'' @
     ''TITLE: Clear value, includes keywords, creates curiosity\<newline>'' @
     ''DESCRIPTION: First 2-3 lines crucial, natural keywords, timestamps if relevant, CTA\<newline>'' @
     ''\<newline>'' @
     ''Format as:\<newline>'' @
     ''**Title:** [title]\<newline>'' @
     ''\<newline>'' @
     ''**Description:**\<newline>'' @
     ''[description]\<newline>'' @
     ''\<newline>'' @
     ''TONE: Enthusiastic, clear, SEO-conscious\<newline>'' @
     ''\<newline>'' @
     ''Create YouTube title and description.'')"

definition YouTubeAgent_create_post ::
  "OpenAIService \<Rightarrow> client \<Rightarrow> str \<Rightarrow> MessageDict list \<Rightarrow> exn + str" where
  "YouTubeAgent_create_post self create prompt history =
     try_except
       (OpenAIService_complete self create (agent_messages YouTubeAgent_system_prompt prompt history)
          (Some (7 / 10)) (Some 800))
       (\<lambda>e. Inl e)"

definition SchoolAgent_system_prompt :: str where
  "SchoolAgent_system_prompt = ascii
    (''You are an expert community manager for School platform.\<newline>'' @
     ''\<newline>'' @
     ''SCHOOL POST CHARACTERISTICS:\<newline>'' @
     ''- Community-focused and collaborative\<newline>'' @
     ''- Educational and value-driven\<newline>'' @
     ''- Encourages discussion\<newline>'' @
     ''- Friendly, supportive tone\<newline>'' @
     ''- Clear structure with headings\<newline>'' @
     ''- 150-250 words\<newline>'' @
     ''- 2-4 emojis for visual breaks\<newline>'' @
     ''- Often ends with \"Love an automation, Jack\"\<newline>'' @
     ''\<newline>'' @
     ''TONE: Warm, expert but approachable, community-oriented\<newline>'' @
     ''\<newline>'' @
     ''Create a School community post.'')"

definition signature_substring :: str where
  "signature_substring = ascii ''Love an automation''"

definition signature_line :: str where
  "signature_line = ascii ''\<newline>\<newline>Love an automation,\<newline>Jack''"

text \<open>\<^verbatim>\<open>SchoolAgent.create_post\<close>: the statements between the completion and the return.\<close>

definition SchoolAgent_add_signature :: "str \<Rightarrow> str" where
  "SchoolAgent_add_signature post =
     (if \<not> str_contains post signature_substring then post @ signature_line else post)"

definition SchoolAgent_create_post ::
  "OpenAIService \<Rightarrow> client \<Rightarrow> str \<Rightarrow> MessageDict list \<Rightarrow> exn + str" where
  "SchoolAgent_create_post self create prompt history =
     try_except
       (case OpenAIService_complete self create (agent_messages SchoolAgent_system_prompt prompt history)
               (Some (7 / 10)) (Some 700) of
          Inl e \<Rightarrow> Inl e
        | Inr post \<Rightarrow> Inr (SchoolAgent_add_signature post))
       (\<lambda>e. Inl e)"

section \<open>The post creator\<close>

datatype agent = XAgent | LinkedInAgent | InstagramAgent | YouTubeAgent | SchoolAgent

fun create_post ::
  "agent \<Rightarrow> OpenAIService \<Rightarrow> client \<Rightarrow> str \<Rightarrow> MessageDict list \<Rightarrow> exn + str" where
  "create_post XAgent = XAgent_create_post"
| "create_post LinkedInAgent = LinkedInAgent_create_post"
| "create_post InstagramAgent = InstagramAgent_create_post"
| "create_post YouTubeAgent = YouTubeAgent_create_post"
| "create_post SchoolAgent = SchoolAgent_create_post"

text \<open>\<^verbatim>\<open>PostCreatorAgent.agents\<close>, the dictionary from platform name to agent.\<close>

definition agents :: "str \<rightharpoonup> agent" where
  "agents =
     map_of
       [(ascii ''x'', XAgent),
        (ascii ''twitter'', XAgent),
        (ascii ''linkedin'', LinkedInAgent),
        (ascii ''instagram'', InstagramAgent),
        (ascii ''youtube'', YouTubeAgent),
        (ascii ''school'', SchoolAgent)]"

definition display_name :: "interpreter \<Rightarrow> str \<Rightarrow> str" where
  "display_name py platform =
     (if lower py platform \<in> set [ascii ''x'', ascii ''twitter''] then ascii ''X''
      else title py platform)"

text \<open>
  The first loop of \<^verbatim>\<open>create_posts\<close>: it appends a task and a display name for every
  platform that has an agent. A task is the agent whose \<^verbatim>\<open>create_post\<close> it will run.
\<close>

fun select_agents :: "interpreter \<Rightarrow> str list \<Rightarrow> agent list \<times> str list \<Rightarrow> agent list \<times> str list" where
  "select_agents py [] (tasks, platform_names) = (tasks, platform_names)"
| "select_agents py (platform # platforms) (tasks, platform_names) =
     (case agents (lower py platform) of
        None \<Rightarrow> select_agents py platforms (tasks, platform_names)
      | Some agent \<Rightarrow>
          select_agents py platforms (tasks @ [agent], platform_names @ [display_name py platform]))"

text \<open>
  \<^verbatim>\<open>asyncio.gather(*tasks, return_exceptions=True)\<close>: every task runs to its end and the
  results come back in task order, an exception as a value. Each task makes its own
  remote call; \<open>creates i\<close> is what the remote service does for task \<open>i\<close>.
\<close>

definition gather ::
  "OpenAIService \<Rightarrow> (nat \<Rightarrow> client) \<Rightarrow> str \<Rightarrow> MessageDict list \<Rightarrow> agent list \<Rightarrow> (exn + str) list" where
  "gather self creates prompt history tasks =
     map (\<lambda>(i, agent). create_post agent self (creates i) prompt history)
         (zip [0..<length tasks] tasks)"

definition error_block :: "str \<Rightarrow> str" where
  "error_block platform_name =
     [10, 10060] @ ascii '' **'' @ platform_name @ ascii ''**: Error generating post\<newline>''"

definition post_block :: "str \<Rightarrow> str \<Rightarrow> str" where
  "post_block platform_name result =
     [10, 128241] @ ascii '' **'' @ platform_name @ ascii ''**\<newline>'' @ result @ [10]"

definition response_header :: str where
  "response_header = [10024] @ ascii '' **Generated Posts**\<newline>''"

text \<open>The second loop: one part per pair of \<^verbatim>\<open>zip(platform_names, results)\<close>.\<close>

fun format_parts :: "(str \<times> (exn + str)) list \<Rightarrow> str list \<Rightarrow> str list" where
  "format_parts [] response_parts = response_parts"
| "format_parts ((platform_name, result) # rest) response_parts =
     (case result of
        Inl e \<Rightarrow> format_parts rest (response_parts @ [error_block platform_name])
      | Inr post \<Rightarrow> format_parts rest (response_parts @ [post_block platform_name post]))"

definition no_platform_response :: str where
  "no_platform_response =
     [128221] @ ascii '' I can create posts for multiple platforms!\<newline>\<newline>'' @
     ascii ''Which platform(s) would you like?\<newline>'' @
     [8226] @ ascii '' X (Twitter)\<newline>'' @
     [8226] @ ascii '' LinkedIn\<newline>'' @
     [8226] @ ascii '' Instagram\<newline>'' @
     [8226] @ ascii '' YouTube\<newline>'' @
     [8226] @ ascii '' School\<newline>\<newline>'' @
     ascii ''Example: '' @ [39] @ ascii ''Create a LinkedIn post about AI automation'' @ [39]"

text \<open>\<^verbatim>\<open>create_posts\<close> from the detected platforms on.\<close>

definition response_parts_for ::
  "interpreter \<Rightarrow> OpenAIService \<Rightarrow> (nat \<Rightarrow> client) \<Rightarrow> str \<Rightarrow> MessageDict list \<Rightarrow> str list \<Rightarrow> str list" where
  "response_parts_for py self creates prompt history platforms =
     (case select_agents py platforms ([], []) of
        (tasks, platform_names) \<Rightarrow>
          (let results = gather self creates prompt history tasks
           in format_parts (zip platform_names results) [response_header]))"

text \<open>\<^verbatim>\<open>PostCreatorAgent.create_posts\<close>. \<open>create\<close> is the remote call of the detection,
  \<open>creates\<close> those of the tasks.\<close>

definition create_posts ::
  "interpreter \<Rightarrow> OpenAIService \<Rightarrow> client \<Rightarrow> (nat \<Rightarrow> client) \<Rightarrow> str \<Rightarrow> MessageDict list \<Rightarrow> exn + str" where
  "create_posts py self create creates prompt history =
     (case detect_platforms py self create prompt of
        Inl e \<Rightarrow> Inl e
      | Inr platforms \<Rightarrow>
          if platforms = [] then Inr no_platform_response
          else Inr (join [10] (response_parts_for py self creates prompt history platforms)))"

text \<open>The detected platforms that have an agent, and the part of the response that one
  of them gets: the names used to state what \<^verbatim>\<open>create_posts\<close> returns.\<close>

definition recognized :: "interpreter \<Rightarrow> str list \<Rightarrow> str list" where
  "recognized py platforms = filter (\<lambda>p. agents (lower py p) \<noteq> None) platforms"

definition block :: "str \<Rightarrow> exn + str \<Rightarrow> str" where
  "block platform_name result =
     (case result of Inl e \<Rightarrow> error_block platform_name | Inr post \<Rightarrow> post_block platform_name post)"

section \<open>Conversation history\<close>






section \<open>Authorization\<close>

text \<open>
  \<^verbatim>\<open>int(s)\<close> on a string of ASCII characters: surrounding whitespace, an optional sign,
  decimal digits, single underscores between digits. \<^verbatim>\<open>None\<close> stands for the
  \<^verbatim>\<open>ValueError\<close> of the interpreter. The decimal digits of other scripts are not part
  of this model.
\<close>

definition isdigit :: "nat \<Rightarrow> bool" where
  "isdigit c \<longleftrightarrow> 48 \<le> c \<and> c \<le> 57"

fun int_digits :: "nat \<Rightarrow> str \<Rightarrow> nat option" where
  "int_digits acc [] = Some acc"
| "int_digits acc [c] = (if isdigit c then Some (10 * acc + (c - 48)) else None)"
| "int_digits acc (c # d # cs) =
     (if isdigit c then int_digits (10 * acc + (c - 48)) (d # cs)
      else if c = 95 \<and> isdigit d then int_digits acc (d # cs)
      else None)"

definition int_unsigned :: "str \<Rightarrow> nat option" where
  "int_unsigned s = (case s of [] \<Rightarrow> None | c # cs \<Rightarrow> if isdigit c then int_digits 0 s else None)"

definition py_int :: "str \<Rightarrow> int option" where
  "py_int s =
     (case strip s of
        [] \<Rightarrow> None
      | c # cs \<Rightarrow>
          if c = 45 then map_option (\<lambda>n. - int n) (int_unsigned cs)
          else if c = 43 then map_option int (int_unsigned cs)
          else map_option int (int_unsigned (c # cs)))"

text \<open>The comprehension of \<^verbatim>\<open>Settings.allowed_user_ids\<close>: blank fields are skipped, the
  first field that is not a number raises.\<close>

fun parse_user_ids :: "str list \<Rightarrow> exn + int list" where
  "parse_user_ids [] = Inr []"
| "parse_user_ids (uid # uids) =
     (if strip uid = [] then parse_user_ids uids
      else (case py_int (strip uid) of
              None \<Rightarrow> Inl ValueError
            | Some n \<Rightarrow>
                (case parse_user_ids uids of
                   Inl e \<Rightarrow> Inl e
                 | Inr ns \<Rightarrow> Inr (n # ns))))"

text \<open>\<^verbatim>\<open>Settings.allowed_user_ids\<close>; the handler raises a \<^verbatim>\<open>ValueError\<close> of its own.\<close>

definition allowed_user_ids :: "Settings \<Rightarrow> exn + int list" where
  "allowed_user_ids self =
     (if strip (TELEGRAM_ALLOWED_USER_IDS self) = [] then Inr []
      else try_except
             (parse_user_ids (split 44 (TELEGRAM_ALLOWED_USER_IDS self)))
             (\<lambda>e. Inl ValueError))"

text \<open>\<^verbatim>\<open>Settings.is_user_whitelist_enabled\<close>.\<close>

definition is_user_whitelist_enabled :: "Settings \<Rightarrow> exn + bool" where
  "is_user_whitelist_enabled self =
     (case allowed_user_ids self of
        Inl e \<Rightarrow> Inl e
      | Inr ids \<Rightarrow> Inr (length ids > 0))"

text \<open>\<^verbatim>\<open>TelegramBot._check_authorization\<close>.\<close>

definition check_authorization :: "Settings \<Rightarrow> int \<Rightarrow> exn + bool" where
  "check_authorization settings user_id =
     (case is_user_whitelist_enabled settings of
        Inl e \<Rightarrow> Inl e
      | Inr enabled \<Rightarrow>
          if \<not> enabled then Inr True
          else (case allowed_user_ids settings of
                  Inl e \<Rightarrow> Inl e
                | Inr ids \<Rightarrow> Inr (user_id \<in> set ids)))"

section \<open>Facts about strings\<close>

lemma length_ascii: "length (ascii s) = length s"
  by (simp add: ascii_def)

lemma strip_replicate: "\<not> isspace c \<Longrightarrow> strip (replicate n c) = replicate n c"
  by (cases n) (simp_all add: strip_def replicate_append_same)

text \<open>\<open>strip\<close> removes whitespace at both ends and nothing else.\<close>

lemma strip_decomp:
  "\<exists>l r. s = l @ strip s @ r \<and> (\<forall>c \<in> set l. isspace c) \<and> (\<forall>c \<in> set r. isspace c)"
proof -
  let ?t = "dropWhile isspace s"
  have 1: "s = takeWhile isspace s @ ?t" by simp
  have 2: "rev ?t = takeWhile isspace (rev ?t) @ dropWhile isspace (rev ?t)" by simp
  have "?t = rev (dropWhile isspace (rev ?t)) @ rev (takeWhile isspace (rev ?t))"
    by (metis 2 rev_append rev_rev_ident)
  then have "s = takeWhile isspace s @ strip s @ rev (takeWhile isspace (rev ?t))"
    unfolding strip_def using 1 by (metis)
  moreover have "\<forall>c \<in> set (takeWhile isspace s). isspace c"
    by (auto dest: set_takeWhileD)
  moreover have "\<forall>c \<in> set (rev (takeWhile isspace (rev ?t))). isspace c"
    by (auto dest: set_takeWhileD)
  ultimately show ?thesis by blast
qed

lemma strip_ends:
  "strip s \<noteq> [] \<Longrightarrow> \<not> isspace (hd (strip s)) \<and> \<not> isspace (last (strip s))"
proof -
  assume ne: "strip s \<noteq> []"
  let ?t = "dropWhile isspace s"
  let ?u = "dropWhile isspace (rev ?t)"
  have une: "?u \<noteq> []" using ne by (simp add: strip_def)
  then have h: "\<not> isspace (hd ?u)" by (rule hd_dropWhile)
  have l: "last (strip s) = hd ?u" using une by (simp add: strip_def last_rev)
  have tne: "?t \<noteq> []"
  proof
    assume "?t = []"
    then have "rev ?t = []" by (simp only: rev.simps)
    then have "?u = []" by (simp only: dropWhile.simps)
    with une show False by blast
  qed
  then have ht: "\<not> isspace (hd ?t)" by (rule hd_dropWhile)
  obtain k where "?u = drop k (rev ?t)"
    by (metis dropWhile_eq_drop)
  then have "strip s = take (length ?t - k) ?t"
    by (simp add: strip_def rev_drop)
  with ne have "hd (strip s) = hd ?t" by (metis hd_take take_eq_Nil2 neq0_conv take_0)
  with h l ht show ?thesis by simp
qed

text \<open>\<open>str_contains\<close> is the substring test.\<close>

lemma startswith_iff: "startswith s sub \<longleftrightarrow> (\<exists>suf. s = sub @ suf)"
  by (induction s sub rule: startswith.induct) auto

lemma str_contains_iff: "str_contains s sub \<longleftrightarrow> (\<exists>pre suf. s = pre @ sub @ suf)"
proof (induction s)
  case Nil
  then show ?case by simp
next
  case (Cons c cs)
  show ?case
  proof
    assume "str_contains (c # cs) sub"
    then consider "startswith (c # cs) sub" | "str_contains cs sub" by auto
    then show "\<exists>pre suf. c # cs = pre @ sub @ suf"
    proof cases
      case 1
      then obtain suf where "c # cs = sub @ suf" by (auto simp: startswith_iff)
      then have "c # cs = [] @ sub @ suf" by simp
      then show ?thesis by blast
    next
      case 2
      then obtain pre suf where "cs = pre @ sub @ suf" using Cons.IH by blast
      then have "c # cs = (c # pre) @ sub @ suf" by simp
      then show ?thesis by blast
    qed
  next
    assume "\<exists>pre suf. c # cs = pre @ sub @ suf"
    then obtain pre suf where eq: "c # cs = pre @ sub @ suf" by blast
    show "str_contains (c # cs) sub"
    proof (cases pre)
      case Nil
      with eq have "startswith (c # cs) sub" by (auto simp: startswith_iff)
      then show ?thesis by simp
    next
      case (Cons p ps)
      with eq have "cs = ps @ sub @ suf" by simp
      then have "str_contains cs sub" using Cons.IH by blast
      then show ?thesis by simp
    qed
  qed
qed

section \<open>The X generator stays within 280 characters\<close>

text \<open>
  C2. Whatever the completion returns, the post that \<^verbatim>\<open>XAgent.create_post\<close> returns has
  at most 280 characters: a completion of more than 280 characters is cut to its first
  277 characters followed by \<^verbatim>\<open>...\<close> (280 characters in all), a shorter one is
  returned as it is.
\<close>

theorem XAgent_create_post_within_limit:
  assumes "OpenAIService_complete self create (agent_messages XAgent_system_prompt prompt history)
             (Some (7 / 10)) (Some 150) = Inr result"
  shows "\<exists>post. XAgent_create_post self create prompt history = Inr post \<and>
           length post \<le> 280 \<and>
           (length result > 280 \<longrightarrow> post = take 277 result @ ascii ''...'' \<and> length post = 280) \<and>
           (length result \<le> 280 \<longrightarrow> post = result)"
  using assms
  by (simp add: XAgent_create_post_def try_except_def XAgent_enforce_limit_def MAX_LENGTH_def
      length_ascii)

theorem XAgent_create_post_within_limit_witness:
  "OpenAIService_complete (OpenAIService_init default_settings) (\<lambda>req. ChatCompletion [Some (replicate 300 65)])
     (agent_messages XAgent_system_prompt (ascii ''Create a tweet'') []) (Some (7 / 10)) (Some 150)
     = Inr (replicate 300 65) \<and>
   XAgent_create_post (OpenAIService_init default_settings)
     (\<lambda>req. ChatCompletion [Some (replicate 300 65)]) (ascii ''Create a tweet'') []
     = Inr (replicate 277 65 @ ascii ''...'')"
proof -
  have c: "OpenAIService_complete (OpenAIService_init default_settings)
     (\<lambda>req. ChatCompletion [Some (replicate 300 65)])
     (agent_messages XAgent_system_prompt (ascii ''Create a tweet'') []) (Some (7 / 10)) (Some 150)
     = Inr (replicate 300 65)"
    by (simp add: OpenAIService_complete_def try_except_def strip_replicate isspace_def)
  from XAgent_create_post_within_limit [OF c] c show ?thesis
    by auto
qed

section \<open>The School generator signs once\<close>

lemma signature_line_contains: "str_contains (post @ signature_line) signature_substring"
proof -
  have "signature_line = [10, 10] @ signature_substring @ ascii '',\<newline>Jack''"
    by (simp add: signature_line_def signature_substring_def ascii_def)
  then have "post @ signature_line = (post @ [10, 10]) @ signature_substring @ ascii '',\<newline>Jack''"
    by simp
  then show ?thesis unfolding str_contains_iff by blast
qed

text \<open>
  C9. \<^verbatim>\<open>SchoolAgent.create_post\<close> returns the completion unchanged when
  \<^verbatim>\<open>Love an automation\<close> occurs in it, and with the signature line appended when it
  does not; the post-processing applied twice is the post-processing applied once.
\<close>

theorem SchoolAgent_signature:
  assumes "OpenAIService_complete self create (agent_messages SchoolAgent_system_prompt prompt history)
             (Some (7 / 10)) (Some 700) = Inr result"
  shows "SchoolAgent_create_post self create prompt history =
           Inr (if \<exists>pre suf. result = pre @ ascii ''Love an automation'' @ suf then result
                else result @ ascii ''\<newline>\<newline>Love an automation,\<newline>Jack'') \<and>
         SchoolAgent_create_post self create prompt history =
           Inr (SchoolAgent_add_signature result) \<and>
         SchoolAgent_add_signature (SchoolAgent_add_signature result) =
           SchoolAgent_add_signature result"
proof -
  have "SchoolAgent_create_post self create prompt history = Inr (SchoolAgent_add_signature result)"
    using assms by (simp add: SchoolAgent_create_post_def try_except_def)
  moreover have "SchoolAgent_add_signature result =
      (if \<exists>pre suf. result = pre @ ascii ''Love an automation'' @ suf then result
       else result @ ascii ''\<newline>\<newline>Love an automation,\<newline>Jack'')"
    by (simp add: SchoolAgent_add_signature_def str_contains_iff signature_substring_def
        signature_line_def)
  moreover have "SchoolAgent_add_signature (SchoolAgent_add_signature result) =
      SchoolAgent_add_signature result"
    by (simp add: SchoolAgent_add_signature_def signature_line_contains)
  ultimately show ?thesis by simp
qed

theorem SchoolAgent_signature_witness:
  "OpenAIService_complete (OpenAIService_init default_settings) (\<lambda>req. ChatCompletion [Some (ascii ''Hey!'')])
     (agent_messages SchoolAgent_system_prompt (ascii ''Create a post'') []) (Some (7 / 10))
     (Some 700) = Inr (ascii ''Hey!'') \<and>
   SchoolAgent_create_post (OpenAIService_init default_settings)
     (\<lambda>req. ChatCompletion [Some (ascii ''Hey!'')]) (ascii ''Create a post'') []
     = Inr (ascii ''Hey!\<newline>\<newline>Love an automation,\<newline>Jack'')"
proof -
  have c: "OpenAIService_complete (OpenAIService_init default_settings)
     (\<lambda>req. ChatCompletion [Some (ascii ''Hey!'')])
     (agent_messages SchoolAgent_system_prompt (ascii ''Create a post'') []) (Some (7 / 10))
     (Some 700) = Inr (ascii ''Hey!'')"
    by (simp add: OpenAIService_complete_def try_except_def strip_def isspace_def ascii_def)
  have "\<not> str_contains (ascii ''Hey!'') signature_substring"
    by (simp add: signature_substring_def ascii_def)
  then have s: "SchoolAgent_add_signature (ascii ''Hey!'')
      = ascii ''Hey!\<newline>\<newline>Love an automation,\<newline>Jack''"
    by (simp add: SchoolAgent_add_signature_def signature_line_def ascii_def)
  from SchoolAgent_signature [OF c]
  have "SchoolAgent_create_post (OpenAIService_init default_settings)
     (\<lambda>req. ChatCompletion [Some (ascii ''Hey!'')]) (ascii ''Create a post'') []
     = Inr (SchoolAgent_add_signature (ascii ''Hey!''))"
    by blast
  with s c show ?thesis
    by (simp only:)
qed

section \<open>The gateway\<close>

text \<open>What \<^verbatim>\<open>OpenAIService.complete\<close> does with each shape of reply.\<close>

lemma OpenAIService_complete_cases:
  "OpenAIService_complete self create messages temperature max_tokens =
     (case create (complete_request self messages temperature max_tokens) of
        Raises e \<Rightarrow> Inl e
      | ChatCompletion [] \<Rightarrow> Inl IndexError
      | ChatCompletion (None # rest) \<Rightarrow> Inl ValueError
      | ChatCompletion (Some t # rest) \<Rightarrow> Inr (strip t))"
  by (simp add: OpenAIService_complete_def try_except_def
      split: completion.splits list.splits option.splits)

text \<open>
  C3. \<^verbatim>\<open>OpenAIService.complete\<close> is to raise when the provider returns empty content. Its
  guard, which raises \<^verbatim>\<open>ValueError("OpenAI returned empty response")\<close>, tests
  \<^verbatim>\<open>content is None\<close> only: for a content that is \<^verbatim>\<open>None\<close> it raises, but for a content that
  is the empty string it returns a value, the empty string.
\<close>

theorem complete_returns_empty_content:
  "OpenAIService_complete self (\<lambda>req. ChatCompletion [Some []]) messages temperature max_tokens
     = Inr [] \<and>
   OpenAIService_complete self (\<lambda>req. ChatCompletion [None]) messages temperature max_tokens
     = Inl ValueError"
  by (simp add: OpenAIService_complete_def try_except_def strip_def)

text \<open>
  C4. The classification request of \<^verbatim>\<open>analyze_intent\<close> is the only request it sends; it
  carries the fixed classifier prompt, the last three history turns and the live message.
  Its temperature is not 0: \<^verbatim>\<open>complete\<close> computes \<^verbatim>\<open>temperature or self.temperature\<close>,
  in which the argument \<^verbatim>\<open>0.0\<close> is falsy, so the request carries the configured
  temperature, 0.7 under the default settings.
\<close>

theorem analyze_intent_sends_default_temperature:
  "analyze_intent py self create text history =
     analyze_intent py self (\<lambda>req. create (analyze_intent_request self text history)) text history \<and>
   req_messages (analyze_intent_request self text history) =
     \<lparr>role = SYSTEM, content = analyze_intent_system_prompt\<rparr>
       # last_n 3 history @ [\<lparr>role = USER, content = text\<rparr>] \<and>
   req_temperature (analyze_intent_request self text history) = self_temperature self \<and>
   req_temperature (analyze_intent_request (OpenAIService_init default_settings) text history)
     = 7 / 10"
  by (simp add: analyze_intent_def analyze_intent_request_def OpenAIService_complete_def complete_request_def
      analyze_intent_messages_def or_float_def OpenAIService_init_def default_settings_def)

text \<open>
  C7. \<^verbatim>\<open>analyze_intent\<close> and \<^verbatim>\<open>analyze_image_intent\<close> always return one of their three
  intents and never raise; when the completion raises, or its lower-cased, trimmed result
  is not one of the three, they return \<^verbatim>\<open>general\<close> and \<^verbatim>\<open>edit_only\<close>.
\<close>

theorem classification_fails_open:
  "(\<exists>intent. analyze_intent py self create text history = Inr intent \<and>
      intent \<in> {ascii ''create_post'', ascii ''edit_image'', ascii ''general''}) \<and>
   ((\<exists>e. OpenAIService_complete self create (analyze_intent_messages text history) (Some 0) (Some 20) = Inl e)
      \<longrightarrow> analyze_intent py self create text history = Inr (ascii ''general'')) \<and>
   (\<forall>result. OpenAIService_complete self create (analyze_intent_messages text history) (Some 0) (Some 20)
        = Inr result \<and>
      strip (lower py result) \<notin> {ascii ''create_post'', ascii ''edit_image'', ascii ''general''}
      \<longrightarrow> analyze_intent py self create text history = Inr (ascii ''general'')) \<and>
   (\<exists>intent. analyze_image_intent py self create caption = Inr intent \<and>
      intent \<in> {ascii ''edit_only'', ascii ''post_only'', ascii ''both''}) \<and>
   ((\<exists>e. OpenAIService_complete self create (analyze_image_intent_messages caption) (Some 0) (Some 20) = Inl e)
      \<longrightarrow> analyze_image_intent py self create caption = Inr (ascii ''edit_only'')) \<and>
   (\<forall>result. OpenAIService_complete self create (analyze_image_intent_messages caption) (Some 0) (Some 20)
        = Inr result \<and>
      strip (lower py result) \<notin> {ascii ''edit_only'', ascii ''post_only'', ascii ''both''}
      \<longrightarrow> analyze_image_intent py self create caption = Inr (ascii ''edit_only''))"
proof -
  have a: "(\<exists>intent. analyze_intent py self create text history = Inr intent \<and>
      intent \<in> {ascii ''create_post'', ascii ''edit_image'', ascii ''general''})"
    by (cases "OpenAIService_complete self create (analyze_intent_messages text history) (Some 0) (Some 20)")
       (simp_all add: analyze_intent_def try_except_def Let_def)
  have b: "(\<exists>intent. analyze_image_intent py self create caption = Inr intent \<and>
      intent \<in> {ascii ''edit_only'', ascii ''post_only'', ascii ''both''})"
    by (cases "OpenAIService_complete self create (analyze_image_intent_messages caption) (Some 0) (Some 20)")
       (simp_all add: analyze_image_intent_def try_except_def Let_def)
  have c: "analyze_intent py self create text history = Inr (ascii ''general'')"
    if "OpenAIService_complete self create (analyze_intent_messages text history) (Some 0) (Some 20) = Inl e"
    for e using that by (simp add: analyze_intent_def try_except_def)
  have d: "analyze_image_intent py self create caption = Inr (ascii ''edit_only'')"
    if "OpenAIService_complete self create (analyze_image_intent_messages caption) (Some 0) (Some 20) = Inl e"
    for e using that by (simp add: analyze_image_intent_def try_except_def)
  have e: "analyze_intent py self create text history = Inr (ascii ''general'')"
    if "OpenAIService_complete self create (analyze_intent_messages text history) (Some 0) (Some 20) = Inr result"
      "strip (lower py result) \<notin> {ascii ''create_post'', ascii ''edit_image'', ascii ''general''}"
    for result using that by (simp add: analyze_intent_def try_except_def Let_def)
  have f: "analyze_image_intent py self create caption = Inr (ascii ''edit_only'')"
    if "OpenAIService_complete self create (analyze_image_intent_messages caption) (Some 0) (Some 20) = Inr result"
      "strip (lower py result) \<notin> {ascii ''edit_only'', ascii ''post_only'', ascii ''both''}"
    for result using that by (simp add: analyze_image_intent_def try_except_def Let_def)
  show ?thesis using a b c d e f by blast
qed

theorem classification_fails_open_witness:
  "\<forall>py.
     analyze_intent py (OpenAIService_init default_settings) (\<lambda>req. Raises OpenAIError)
       (ascii ''hello'') [] = Inr (ascii ''general'') \<and>
     OpenAIService_complete (OpenAIService_init default_settings)
       (\<lambda>req. ChatCompletion [Some (ascii ''Maybe'')])
       (analyze_image_intent_messages (ascii ''nice'')) (Some 0) (Some 20) = Inr (ascii ''Maybe'') \<and>
     strip (lower py (ascii ''Maybe'')) \<notin> {ascii ''edit_only'', ascii ''post_only'', ascii ''both''} \<and>
     analyze_image_intent py (OpenAIService_init default_settings)
       (\<lambda>req. ChatCompletion [Some (ascii ''Maybe'')]) (ascii ''nice'') = Inr (ascii ''edit_only'')"
proof
  fix py
  have 1: "\<exists>e. OpenAIService_complete (OpenAIService_init default_settings)
          (\<lambda>req. Raises OpenAIError)
          (analyze_intent_messages (ascii ''hello'') []) (Some 0) (Some 20) = Inl e"
    by (simp add: OpenAIService_complete_def try_except_def)
  have 2: "OpenAIService_complete (OpenAIService_init default_settings)
      (\<lambda>req. ChatCompletion [Some (ascii ''Maybe'')])
      (analyze_image_intent_messages (ascii ''nice'')) (Some 0) (Some 20) = Inr (ascii ''Maybe'')"
    by (simp add: OpenAIService_complete_def try_except_def strip_def ascii_def isspace_def)
  have 3: "strip (lower py (ascii ''Maybe'')) \<notin> {ascii ''edit_only'', ascii ''post_only'', ascii ''both''}"
    by (simp add: strip_def lower_def isascii_def lower_cp_def isupper_cp_def ascii_def isspace_def)
  from classification_fails_open
    [of py "OpenAIService_init default_settings" "\<lambda>req. Raises OpenAIError" "ascii ''hello''" "[]"]
    1
  have 4: "analyze_intent py (OpenAIService_init default_settings) (\<lambda>req. Raises OpenAIError)
     (ascii ''hello'') [] = Inr (ascii ''general'')"
    by blast
  from classification_fails_open
    [where py = py and self = "OpenAIService_init default_settings"
       and create = "\<lambda>req. ChatCompletion [Some (ascii ''Maybe'')]"
       and caption = "ascii ''nice''"]
    2 3
  have 5: "analyze_image_intent py (OpenAIService_init default_settings)
     (\<lambda>req. ChatCompletion [Some (ascii ''Maybe'')]) (ascii ''nice'') = Inr (ascii ''edit_only'')"
    by blast
  from 2 3 4 5
  show "analyze_intent py (OpenAIService_init default_settings) (\<lambda>req. Raises OpenAIError)
       (ascii ''hello'') [] = Inr (ascii ''general'') \<and>
     OpenAIService_complete (OpenAIService_init default_settings)
       (\<lambda>req. ChatCompletion [Some (ascii ''Maybe'')])
       (analyze_image_intent_messages (ascii ''nice'')) (Some 0) (Some 20) = Inr (ascii ''Maybe'') \<and>
     strip (lower py (ascii ''Maybe'')) \<notin> {ascii ''edit_only'', ascii ''post_only'', ascii ''both''} \<and>
     analyze_image_intent py (OpenAIService_init default_settings)
       (\<lambda>req. ChatCompletion [Some (ascii ''Maybe'')]) (ascii ''nice'') = Inr (ascii ''edit_only'')"
    by blast
qed

section \<open>Authorization\<close>

lemma check_authorization_eq:
  "check_authorization settings user_id =
     (case allowed_user_ids settings of
        Inl e \<Rightarrow> Inl e
      | Inr ids \<Rightarrow> Inr (ids = [] \<or> user_id \<in> set ids))"
  by (auto simp: check_authorization_def is_user_whitelist_enabled_def split: sum.splits)

lemma ids_12_34:
  "allowed_user_ids (default_settings\<lparr>TELEGRAM_ALLOWED_USER_IDS := ascii ''12, 34''\<rparr>)
     = Inr [12, 34]"
  by (simp add: allowed_user_ids_def try_except_def strip_def ascii_def isspace_def py_int_def
      int_unsigned_def isdigit_def)

text \<open>
  C10. With no identifier configured (the setting is blank, or parses to the empty list)
  \<^verbatim>\<open>_check_authorization\<close> returns true for every user id; with a non-empty allow-list it
  returns true exactly for the ids of the list.
\<close>

theorem check_authorization_allow_list:
  "(strip (TELEGRAM_ALLOWED_USER_IDS settings) = [] \<longrightarrow>
      allowed_user_ids settings = Inr [] \<and> check_authorization settings user_id = Inr True) \<and>
   (\<forall>ids. allowed_user_ids settings = Inr ids \<longrightarrow>
      (ids = [] \<longrightarrow> check_authorization settings user_id = Inr True) \<and>
      (ids \<noteq> [] \<longrightarrow> check_authorization settings user_id = Inr (user_id \<in> set ids)))"
  by (auto simp: check_authorization_eq allowed_user_ids_def)

theorem check_authorization_allow_list_witness:
  "allowed_user_ids default_settings = Inr [] \<and>
   check_authorization default_settings 5 = Inr True \<and>
   allowed_user_ids (default_settings\<lparr>TELEGRAM_ALLOWED_USER_IDS := ascii ''12, 34''\<rparr>)
     = Inr [12, 34] \<and>
   check_authorization (default_settings\<lparr>TELEGRAM_ALLOWED_USER_IDS := ascii ''12, 34''\<rparr>) 34
     = Inr True \<and>
   check_authorization (default_settings\<lparr>TELEGRAM_ALLOWED_USER_IDS := ascii ''12, 34''\<rparr>) 5
     = Inr False"
proof -
  have blank: "strip (TELEGRAM_ALLOWED_USER_IDS default_settings) = []"
    by (simp add: default_settings_def strip_def)
  note a = check_authorization_allow_list [of default_settings 5]
  note b = check_authorization_allow_list
    [of "default_settings\<lparr>TELEGRAM_ALLOWED_USER_IDS := ascii ''12, 34''\<rparr>" 34]
  note c = check_authorization_allow_list
    [of "default_settings\<lparr>TELEGRAM_ALLOWED_USER_IDS := ascii ''12, 34''\<rparr>" 5]
  from blank a have 1: "allowed_user_ids default_settings = Inr [] \<and>
      check_authorization default_settings 5 = Inr True" by blast
  from b ids_12_34 have 2: "check_authorization
      (default_settings\<lparr>TELEGRAM_ALLOWED_USER_IDS := ascii ''12, 34''\<rparr>) 34 = Inr True"
    by fastforce
  from c ids_12_34 have 3: "check_authorization
      (default_settings\<lparr>TELEGRAM_ALLOWED_USER_IDS := ascii ''12, 34''\<rparr>) 5 = Inr False"
    by fastforce
  from 1 2 3 ids_12_34 show ?thesis by blast
qed

section \<open>Platform detection\<close>

text \<open>\<open>split\<close> cuts a string into its comma-separated fields, and into nothing else.\<close>

lemma split_no_sep: "sep \<notin> set f \<Longrightarrow> split sep f = [f]"
  by (induction f) auto

lemma split_field_sep: "sep \<notin> set f \<Longrightarrow> split sep (f @ sep # s) = f # split sep s"
  by (induction f) auto

lemma split_join:
  "tokens \<noteq> [] \<Longrightarrow> \<forall>f \<in> set tokens. sep \<notin> set f \<Longrightarrow> split sep (join [sep] tokens) = tokens"
proof (induction "[sep]" tokens rule: join.induct)
  case 1
  then show ?case by simp
next
  case (2 p)
  then show ?case by (simp add: split_no_sep)
next
  case (3 p q ps)
  then show ?case by (simp add: split_field_sep)
qed

lemma split_fields:
  "split sep s \<noteq> [] \<and> (\<forall>f \<in> set (split sep s). sep \<notin> set f) \<and> join [sep] (split sep s) = s"
proof (induction s)
  case Nil
  then show ?case by simp
next
  case (Cons c cs)
  then obtain f fs where s: "split sep cs = f # fs" by (cases "split sep cs") auto
  show ?case
  proof (cases "c = sep")
    case True
    with Cons s show ?thesis by auto
  next
    case False
    with Cons s show ?thesis by (cases fs) auto
  qed
qed

lemma parse_platforms_canonical:
  "set (parse_platforms result)
     \<subseteq> {ascii ''x'', ascii ''linkedin'', ascii ''instagram'', ascii ''youtube'', ascii ''school''}"
  by (auto simp: parse_platforms_def valid_platforms_def Let_def)

text \<open>
  C6. \<^verbatim>\<open>detect_platforms\<close> never raises and returns only names of the five platforms.
  It returns the empty list when the completion fails and when the lower-cased, trimmed
  reply is \<^verbatim>\<open>none\<close>. Otherwise, for the comma-separated tokens of that reply, it drops
  every token that, trimmed, is not a known platform name, replaces \<^verbatim>\<open>twitter\<close> by
  \<^verbatim>\<open>x\<close> and keeps every other known name as it is, in the order of the reply.
\<close>

theorem detect_platforms_parses_reply:
  "(\<exists>platforms. detect_platforms py self create prompt = Inr platforms \<and>
      set platforms \<subseteq> {ascii ''x'', ascii ''linkedin'', ascii ''instagram'', ascii ''youtube'',
                        ascii ''school''}) \<and>
   ((\<exists>e. OpenAIService_complete self create (detect_platforms_messages prompt) (Some 0) (Some 50) = Inl e)
      \<longrightarrow> detect_platforms py self create prompt = Inr []) \<and>
   (\<forall>reply. OpenAIService_complete self create (detect_platforms_messages prompt) (Some 0) (Some 50) = Inr reply
       \<and> strip (lower py reply) = ascii ''none''
      \<longrightarrow> detect_platforms py self create prompt = Inr []) \<and>
   (\<forall>reply tokens.
      OpenAIService_complete self create (detect_platforms_messages prompt) (Some 0) (Some 50) = Inr reply
       \<and> strip (lower py reply) \<noteq> ascii ''none''
       \<and> tokens \<noteq> [] \<and> (\<forall>f \<in> set tokens. 44 \<notin> set f)
       \<and> join [44] tokens = strip (lower py reply)
      \<longrightarrow> detect_platforms py self create prompt =
            Inr (map (\<lambda>p. if p = ascii ''twitter'' then ascii ''x'' else p)
                   (filter (\<lambda>p. p \<in> {ascii ''x'', ascii ''twitter'', ascii ''linkedin'',
                                        ascii ''instagram'', ascii ''youtube'', ascii ''school''})
                      (map strip tokens))))"
proof -
  let ?c = "OpenAIService_complete self create (detect_platforms_messages prompt) (Some 0) (Some 50)"
  have a: "\<exists>platforms. detect_platforms py self create prompt = Inr platforms \<and>
      set platforms \<subseteq> {ascii ''x'', ascii ''linkedin'', ascii ''instagram'', ascii ''youtube'',
                        ascii ''school''}"
    using parse_platforms_canonical
    by (cases ?c) (simp_all add: detect_platforms_def try_except_def Let_def)
  have b: "detect_platforms py self create prompt = Inr []" if "?c = Inl e" for e
    using that by (simp add: detect_platforms_def try_except_def)
  have c: "detect_platforms py self create prompt = Inr []"
    if "?c = Inr reply" "strip (lower py reply) = ascii ''none''" for reply
    using that by (simp add: detect_platforms_def try_except_def)
  have d: "detect_platforms py self create prompt =
            Inr (map (\<lambda>p. if p = ascii ''twitter'' then ascii ''x'' else p)
                   (filter (\<lambda>p. p \<in> {ascii ''x'', ascii ''twitter'', ascii ''linkedin'',
                                        ascii ''instagram'', ascii ''youtube'', ascii ''school''})
                      (map strip tokens)))"
    if "?c = Inr reply" "strip (lower py reply) \<noteq> ascii ''none''" "tokens \<noteq> []"
      "\<forall>f \<in> set tokens. 44 \<notin> set f" "join [44] tokens = strip (lower py reply)"
    for reply tokens
  proof -
    have "split 44 (strip (lower py reply)) = tokens"
      using split_join [of tokens 44] that(3,4,5) by simp
    with that(1,2) show ?thesis
      by (simp add: detect_platforms_def try_except_def Let_def parse_platforms_def
          valid_platforms_def)
  qed
  show ?thesis using a b c d by blast
qed

theorem detect_platforms_parses_reply_witness:
  "\<forall>py.
     OpenAIService_complete (OpenAIService_init default_settings)
       (\<lambda>req. ChatCompletion [Some (ascii '' Twitter, LinkedIn ,tiktok,x '')])
       (detect_platforms_messages (ascii ''posts please'')) (Some 0) (Some 50)
       = Inr (ascii ''Twitter, LinkedIn ,tiktok,x'') \<and>
     strip (lower py (ascii ''Twitter, LinkedIn ,tiktok,x'')) \<noteq> ascii ''none'' \<and>
     [ascii ''twitter'', ascii '' linkedin '', ascii ''tiktok'', ascii ''x''] \<noteq> [] \<and>
     join [44] [ascii ''twitter'', ascii '' linkedin '', ascii ''tiktok'', ascii ''x'']
       = strip (lower py (ascii ''Twitter, LinkedIn ,tiktok,x'')) \<and>
     detect_platforms py (OpenAIService_init default_settings)
       (\<lambda>req. ChatCompletion [Some (ascii '' Twitter, LinkedIn ,tiktok,x '')])
       (ascii ''posts please'') = Inr [ascii ''x'', ascii ''linkedin'', ascii ''x''] \<and>
     (\<exists>e. OpenAIService_complete (OpenAIService_init default_settings) (\<lambda>req. Raises OpenAIError)
            (detect_platforms_messages (ascii ''posts please'')) (Some 0) (Some 50) = Inl e) \<and>
     detect_platforms py (OpenAIService_init default_settings) (\<lambda>req. Raises OpenAIError)
       (ascii ''posts please'') = Inr []"
proof
  fix py
  let ?svc = "OpenAIService_init default_settings"
  let ?create = "\<lambda>req :: request. ChatCompletion [Some (ascii '' Twitter, LinkedIn ,tiktok,x '')]"
  let ?reply = "ascii ''Twitter, LinkedIn ,tiktok,x''"
  let ?tokens = "[ascii ''twitter'', ascii '' linkedin '', ascii ''tiktok'', ascii ''x'']"
  have 1: "OpenAIService_complete ?svc ?create (detect_platforms_messages (ascii ''posts please''))
      (Some 0) (Some 50) = Inr ?reply"
    by (simp add: OpenAIService_complete_def try_except_def strip_def ascii_def isspace_def)
  have 2: "strip (lower py ?reply) \<noteq> ascii ''none''"
    by (simp add: strip_def lower_def isascii_def lower_cp_def isupper_cp_def ascii_def isspace_def)
  have 3: "?tokens \<noteq> []" by simp
  have 4: "\<forall>f \<in> set ?tokens. 44 \<notin> set f" by (simp add: ascii_def)
  have 5: "join [44] ?tokens = strip (lower py ?reply)"
    by (simp add: strip_def lower_def isascii_def lower_cp_def isupper_cp_def ascii_def isspace_def)
  have strips: "map strip ?tokens = [ascii ''twitter'', ascii ''linkedin'', ascii ''tiktok'', ascii ''x'']"
    by (simp add: strip_def ascii_def isspace_def)
  from detect_platforms_parses_reply [of py ?svc ?create "ascii ''posts please''"] 1 2 3 4 5
  have "detect_platforms py ?svc ?create (ascii ''posts please'') =
      Inr (map (\<lambda>p. if p = ascii ''twitter'' then ascii ''x'' else p)
             (filter (\<lambda>p. p \<in> {ascii ''x'', ascii ''twitter'', ascii ''linkedin'',
                                  ascii ''instagram'', ascii ''youtube'', ascii ''school''})
                (map strip ?tokens)))"
    by blast
  then have 6: "detect_platforms py ?svc ?create (ascii ''posts please'')
      = Inr [ascii ''x'', ascii ''linkedin'', ascii ''x'']"
    unfolding strips by (simp add: ascii_def)
  have 7: "\<exists>e. OpenAIService_complete ?svc (\<lambda>req. Raises OpenAIError)
      (detect_platforms_messages (ascii ''posts please'')) (Some 0) (Some 50) = Inl e"
    by (simp add: OpenAIService_complete_def try_except_def)
  from detect_platforms_parses_reply [of py ?svc "\<lambda>req. Raises OpenAIError" "ascii ''posts please''"] 7
  have 8: "detect_platforms py ?svc (\<lambda>req. Raises OpenAIError) (ascii ''posts please'') = Inr []"
    by blast
  from 1 2 3 5 6 7 8
  show "OpenAIService_complete (OpenAIService_init default_settings)
      (\<lambda>req. ChatCompletion [Some (ascii '' Twitter, LinkedIn ,tiktok,x '')])
      (detect_platforms_messages (ascii ''posts please'')) (Some 0) (Some 50)
      = Inr (ascii ''Twitter, LinkedIn ,tiktok,x'') \<and>
    strip (lower py (ascii ''Twitter, LinkedIn ,tiktok,x'')) \<noteq> ascii ''none'' \<and>
    [ascii ''twitter'', ascii '' linkedin '', ascii ''tiktok'', ascii ''x''] \<noteq> [] \<and>
    join [44] [ascii ''twitter'', ascii '' linkedin '', ascii ''tiktok'', ascii ''x'']
      = strip (lower py (ascii ''Twitter, LinkedIn ,tiktok,x'')) \<and>
    detect_platforms py (OpenAIService_init default_settings)
      (\<lambda>req. ChatCompletion [Some (ascii '' Twitter, LinkedIn ,tiktok,x '')])
      (ascii ''posts please'') = Inr [ascii ''x'', ascii ''linkedin'', ascii ''x''] \<and>
    (\<exists>e. OpenAIService_complete (OpenAIService_init default_settings) (\<lambda>req. Raises OpenAIError)
           (detect_platforms_messages (ascii ''posts please'')) (Some 0) (Some 50) = Inl e) \<and>
    detect_platforms py (OpenAIService_init default_settings) (\<lambda>req. Raises OpenAIError)
      (ascii ''posts please'') = Inr []"
    by blast
qed

section \<open>The fan-out\<close>

lemma select_agents_acc:
  "select_agents py platforms (tasks, names) =
     (tasks @ List.map_filter (\<lambda>p. agents (lower py p)) platforms,
      names @ map (display_name py) (recognized py platforms))"
proof (induction platforms arbitrary: tasks names)
  case Nil
  then show ?case by (simp add: recognized_def List.map_filter_simps)
next
  case (Cons p ps)
  then show ?case
    by (cases "agents (lower py p)") (simp_all add: recognized_def List.map_filter_simps)
qed

lemma map_filter_recognized:
  "List.map_filter (\<lambda>p. agents (lower py p)) platforms
     = map (\<lambda>p. the (agents (lower py p))) (recognized py platforms)"
  by (simp add: List.map_filter_def recognized_def)

lemma format_parts_acc:
  "format_parts pairs acc = acc @ map (\<lambda>(name, result). block name result) pairs"
proof (induction pairs arbitrary: acc)
  case Nil
  then show ?case by simp
next
  case (Cons pr prs)
  obtain name result where pr: "pr = (name, result)" by (cases pr)
  show ?case unfolding pr using Cons.IH
    by (cases result) (simp_all add: block_def)
qed

lemma length_gather: "length (gather self creates prompt history tasks) = length tasks"
  by (simp add: gather_def)

lemma nth_gather:
  "i < length tasks \<Longrightarrow>
     gather self creates prompt history tasks ! i
       = create_post (tasks ! i) self (creates i) prompt history"
  by (simp add: gather_def)

lemma response_parts_for_eq:
  "response_parts_for py self creates prompt history platforms =
     response_header #
       map (\<lambda>i. block (display_name py (recognized py platforms ! i))
                  (create_post (the (agents (lower py (recognized py platforms ! i)))) self
                     (creates i) prompt history))
           [0..<length (recognized py platforms)]"
proof -
  let ?r = "recognized py platforms"
  let ?tasks = "map (\<lambda>p. the (agents (lower py p))) ?r"
  let ?names = "map (display_name py) ?r"
  have sel: "select_agents py platforms ([], []) = (?tasks, ?names)"
    by (simp add: select_agents_acc map_filter_recognized)
  have "map (\<lambda>(name, result). block name result)
          (zip ?names (gather self creates prompt history ?tasks))
        = map (\<lambda>i. block (display_name py (?r ! i))
                  (create_post (the (agents (lower py (?r ! i)))) self (creates i) prompt history))
           [0..<length ?r]"
    by (rule nth_equalityI) (simp_all add: length_gather nth_gather)
  then show ?thesis
    by (simp add: response_parts_for_def sel format_parts_acc)
qed

text \<open>\<^verbatim>\<open>"\n".join\<close> of a non-empty list: the first part, then every other part after a
  line feed.\<close>

lemma join_concat: "join [c] (p # ps) = p @ concat (map (\<lambda>q. c # q) ps)"
  by (induction ps arbitrary: p) simp_all

text \<open>Every platform that \<^verbatim>\<open>detect_platforms\<close> returns is one of the five names, and each
  of them has its agent and its label.\<close>

lemma detected_canonical:
  assumes "detect_platforms py self create prompt = Inr platforms"
  shows "set platforms \<subseteq> {ascii ''x'', ascii ''linkedin'', ascii ''instagram'', ascii ''youtube'',
                        ascii ''school''}"
  using assms parse_platforms_canonical
  by (cases "OpenAIService_complete self create (detect_platforms_messages prompt) (Some 0) (Some 50)")
     (auto simp: detect_platforms_def try_except_def Let_def split: if_splits)

lemma lower_canonical:
  "p \<in> {ascii ''x'', ascii ''twitter'', ascii ''linkedin'', ascii ''instagram'', ascii ''youtube'',
         ascii ''school''}
   \<Longrightarrow> lower py p = p"
  by (auto simp: lower_def isascii_def lower_cp_def isupper_cp_def ascii_def)

lemma agents_canonical:
  "agents (ascii ''x'') = Some XAgent"
  "agents (ascii ''twitter'') = Some XAgent"
  "agents (ascii ''linkedin'') = Some LinkedInAgent"
  "agents (ascii ''instagram'') = Some InstagramAgent"
  "agents (ascii ''youtube'') = Some YouTubeAgent"
  "agents (ascii ''school'') = Some SchoolAgent"
  by (simp_all add: agents_def ascii_def)

lemma display_name_canonical:
  "display_name py (ascii ''x'') = ascii ''X''"
  "display_name py (ascii ''twitter'') = ascii ''X''"
  "display_name py (ascii ''linkedin'') = ascii ''Linkedin''"
  "display_name py (ascii ''instagram'') = ascii ''Instagram''"
  "display_name py (ascii ''youtube'') = ascii ''Youtube''"
  "display_name py (ascii ''school'') = ascii ''School''"
  by (simp_all add: display_name_def title_def lower_def isascii_def lower_cp_def upper_cp_def
      isupper_cp_def islower_cp_def ascii_def)

lemma detected_have_agents:
  assumes "detect_platforms py self create prompt = Inr platforms"
  shows "recognized py platforms = platforms"
proof -
  have "\<forall>p \<in> set platforms. agents (lower py p) \<noteq> None"
    using detected_canonical [OF assms] by (auto simp: lower_canonical agents_canonical)
  then show ?thesis by (simp add: recognized_def)
qed

lemma detected_entry:
  assumes "detect_platforms py self create prompt = Inr platforms" and "i < length platforms"
  shows "\<exists>agent label.
           (platforms ! i, agent, label) \<in>
             set [(ascii ''x'', XAgent, ascii ''X''),
                  (ascii ''linkedin'', LinkedInAgent, ascii ''Linkedin''),
                  (ascii ''instagram'', InstagramAgent, ascii ''Instagram''),
                  (ascii ''youtube'', YouTubeAgent, ascii ''Youtube''),
                  (ascii ''school'', SchoolAgent, ascii ''School'')] \<and>
           agents (lower py (platforms ! i)) = Some agent \<and>
           display_name py (platforms ! i) = label"
proof -
  from assms(2) have "platforms ! i \<in> set platforms" by simp
  with detected_canonical [OF assms(1)]
  have "platforms ! i \<in> {ascii ''x'', ascii ''linkedin'', ascii ''instagram'', ascii ''youtube'',
                        ascii ''school''}"
    by blast
  then show ?thesis
    by (auto simp: lower_canonical agents_canonical display_name_canonical)
qed


text \<open>
  C1 (as amended). \<^verbatim>\<open>create_posts\<close> answers a non-empty detected list with the header
  line followed, each after a line feed, by exactly one block for every entry of the list,
  in the order of detection; a platform that is detected twice has two blocks. The block
  of an entry carries the label of its platform and depends on the outcome of its own
  generator only: the error marker when the generator raised, the generated content when
  it returned. No entry is left out, since every detected name has an agent. For any list
  of names the same holds of the entries that have an agent, with the label \<^verbatim>\<open>X\<close> for
  \<^verbatim>\<open>x\<close> and \<^verbatim>\<open>twitter\<close> and the title-cased name otherwise.
\<close>

theorem create_posts_one_block_per_entry:
  "(detect_platforms py self create prompt = Inr platforms \<and> platforms \<noteq> [] \<longrightarrow>
      (\<exists>parts.
         create_posts py self create creates prompt history =
           Inr ([10024] @ ascii '' **Generated Posts**\<newline>'' @ concat (map (\<lambda>part. 10 # part) parts)) \<and>
         length parts = length platforms \<and>
         (\<forall>i < length platforms.
            \<exists>agent label.
              (platforms ! i, agent, label) \<in>
                set [(ascii ''x'', XAgent, ascii ''X''),
                     (ascii ''linkedin'', LinkedInAgent, ascii ''Linkedin''),
                     (ascii ''instagram'', InstagramAgent, ascii ''Instagram''),
                     (ascii ''youtube'', YouTubeAgent, ascii ''Youtube''),
                     (ascii ''school'', SchoolAgent, ascii ''School'')] \<and>
              parts ! i =
                (case create_post agent self (creates i) prompt history of
                   Inl e \<Rightarrow>
                     [10, 10060] @ ascii '' **'' @ label @ ascii ''**: Error generating post\<newline>''
                 | Inr post \<Rightarrow>
                     [10, 128241] @ ascii '' **'' @ label @ ascii ''**\<newline>'' @ post @ [10])))) \<and>
   (\<forall>entries. entries = filter (\<lambda>p. agents (lower py p) \<noteq> None) platforms \<longrightarrow>
      (\<exists>parts.
         join [10] (response_parts_for py self creates prompt history platforms) =
           [10024] @ ascii '' **Generated Posts**\<newline>'' @ concat (map (\<lambda>part. 10 # part) parts) \<and>
         length parts = length entries \<and>
         (\<forall>i < length entries.
            \<exists>agent label.
              agents (lower py (entries ! i)) = Some agent \<and>
              label = (if lower py (entries ! i) \<in> {ascii ''x'', ascii ''twitter''} then ascii ''X''
                       else title py (entries ! i)) \<and>
              parts ! i =
                (case create_post agent self (creates i) prompt history of
                   Inl e \<Rightarrow>
                     [10, 10060] @ ascii '' **'' @ label @ ascii ''**: Error generating post\<newline>''
                 | Inr post \<Rightarrow>
                     [10, 128241] @ ascii '' **'' @ label @ ascii ''**\<newline>'' @ post @ [10]))))"
proof -
  let ?r = "recognized py platforms"
  let ?parts = "map (\<lambda>i. block (display_name py (?r ! i))
                  (create_post (the (agents (lower py (?r ! i)))) self (creates i) prompt history))
           [0..<length ?r]"
  have joined: "join [10] (response_parts_for py self creates prompt history platforms)
      = [10024] @ ascii '' **Generated Posts**\<newline>'' @ concat (map (\<lambda>part. 10 # part) ?parts)"
    unfolding response_parts_for_eq join_concat by (simp add: response_header_def)
  have blk: "block name result =
      (case result of
         Inl e \<Rightarrow> [10, 10060] @ ascii '' **'' @ name @ ascii ''**: Error generating post\<newline>''
       | Inr post \<Rightarrow> [10, 128241] @ ascii '' **'' @ name @ ascii ''**\<newline>'' @ post @ [10])"
    for name result
    by (simp add: block_def error_block_def post_block_def split: sum.splits)
  have general: "\<exists>agent label.
              agents (lower py (?r ! i)) = Some agent \<and>
              label = (if lower py (?r ! i) \<in> {ascii ''x'', ascii ''twitter''} then ascii ''X''
                       else title py (?r ! i)) \<and>
              ?parts ! i =
                (case create_post agent self (creates i) prompt history of
                   Inl e \<Rightarrow>
                     [10, 10060] @ ascii '' **'' @ label @ ascii ''**: Error generating post\<newline>''
                 | Inr post \<Rightarrow>
                     [10, 128241] @ ascii '' **'' @ label @ ascii ''**\<newline>'' @ post @ [10])"
    if "i < length ?r" for i
  proof -
    from that have "?r ! i \<in> set ?r" by simp
    then obtain agent where a: "agents (lower py (?r ! i)) = Some agent"
      by (auto simp: recognized_def)
    have dn: "display_name py (?r ! i) =
        (if lower py (?r ! i) \<in> {ascii ''x'', ascii ''twitter''} then ascii ''X''
         else title py (?r ! i))"
      by (simp add: display_name_def)
    have "?parts ! i =
        block (display_name py (?r ! i)) (create_post agent self (creates i) prompt history)"
      using that a by simp
    then have "?parts ! i =
        (case create_post agent self (creates i) prompt history of
           Inl e \<Rightarrow>
             [10, 10060] @ ascii '' **'' @ display_name py (?r ! i)
               @ ascii ''**: Error generating post\<newline>''
         | Inr post \<Rightarrow>
             [10, 128241] @ ascii '' **'' @ display_name py (?r ! i) @ ascii ''**\<newline>''
               @ post @ [10])"
      by (simp only: blk)
    with a dn show ?thesis by blast
  qed
  have 2: "\<exists>parts.
         join [10] (response_parts_for py self creates prompt history platforms) =
           [10024] @ ascii '' **Generated Posts**\<newline>'' @ concat (map (\<lambda>part. 10 # part) parts) \<and>
         length parts = length entries \<and>
         (\<forall>i < length entries.
            \<exists>agent label.
              agents (lower py (entries ! i)) = Some agent \<and>
              label = (if lower py (entries ! i) \<in> {ascii ''x'', ascii ''twitter''} then ascii ''X''
                       else title py (entries ! i)) \<and>
              parts ! i =
                (case create_post agent self (creates i) prompt history of
                   Inl e \<Rightarrow>
                     [10, 10060] @ ascii '' **'' @ label @ ascii ''**: Error generating post\<newline>''
                 | Inr post \<Rightarrow>
                     [10, 128241] @ ascii '' **'' @ label @ ascii ''**\<newline>'' @ post @ [10]))"
    if "entries = filter (\<lambda>p. agents (lower py p) \<noteq> None) platforms" for entries
  proof -
    from that have e: "entries = ?r" by (simp add: recognized_def)
    show ?thesis unfolding e using joined general
      by (intro exI [of _ ?parts]) simp
  qed
  have 1: "\<exists>parts.
         create_posts py self create creates prompt history =
           Inr ([10024] @ ascii '' **Generated Posts**\<newline>'' @ concat (map (\<lambda>part. 10 # part) parts)) \<and>
         length parts = length platforms \<and>
         (\<forall>i < length platforms.
            \<exists>agent label.
              (platforms ! i, agent, label) \<in>
                set [(ascii ''x'', XAgent, ascii ''X''),
                     (ascii ''linkedin'', LinkedInAgent, ascii ''Linkedin''),
                     (ascii ''instagram'', InstagramAgent, ascii ''Instagram''),
                     (ascii ''youtube'', YouTubeAgent, ascii ''Youtube''),
                     (ascii ''school'', SchoolAgent, ascii ''School'')] \<and>
              parts ! i =
                (case create_post agent self (creates i) prompt history of
                   Inl e \<Rightarrow>
                     [10, 10060] @ ascii '' **'' @ label @ ascii ''**: Error generating post\<newline>''
                 | Inr post \<Rightarrow>
                     [10, 128241] @ ascii '' **'' @ label @ ascii ''**\<newline>'' @ post @ [10]))"
    if d: "detect_platforms py self create prompt = Inr platforms" and ne: "platforms \<noteq> []"
  proof -
    have r: "?r = platforms" using d by (rule detected_have_agents)
    have resp: "create_posts py self create creates prompt history =
        Inr ([10024] @ ascii '' **Generated Posts**\<newline>'' @ concat (map (\<lambda>part. 10 # part) ?parts))"
      using d ne joined by (simp add: create_posts_def)
    have entry: "\<exists>agent label.
              (platforms ! i, agent, label) \<in>
                set [(ascii ''x'', XAgent, ascii ''X''),
                     (ascii ''linkedin'', LinkedInAgent, ascii ''Linkedin''),
                     (ascii ''instagram'', InstagramAgent, ascii ''Instagram''),
                     (ascii ''youtube'', YouTubeAgent, ascii ''Youtube''),
                     (ascii ''school'', SchoolAgent, ascii ''School'')] \<and>
              ?parts ! i =
                (case create_post agent self (creates i) prompt history of
                   Inl e \<Rightarrow>
                     [10, 10060] @ ascii '' **'' @ label @ ascii ''**: Error generating post\<newline>''
                 | Inr post \<Rightarrow>
                     [10, 128241] @ ascii '' **'' @ label @ ascii ''**\<newline>'' @ post @ [10])"
      if i: "i < length platforms" for i
    proof -
      from detected_entry [OF d i] obtain agent label where
        t: "(platforms ! i, agent, label) \<in>
                set [(ascii ''x'', XAgent, ascii ''X''),
                     (ascii ''linkedin'', LinkedInAgent, ascii ''Linkedin''),
                     (ascii ''instagram'', InstagramAgent, ascii ''Instagram''),
                     (ascii ''youtube'', YouTubeAgent, ascii ''Youtube''),
                     (ascii ''school'', SchoolAgent, ascii ''School'')]"
        and a: "agents (lower py (platforms ! i)) = Some agent"
        and l: "display_name py (platforms ! i) = label"
        by blast
      from i a l have "?parts ! i =
          block label (create_post agent self (creates i) prompt history)"
        by (simp add: r)
      then have "?parts ! i =
                (case create_post agent self (creates i) prompt history of
                   Inl e \<Rightarrow>
                     [10, 10060] @ ascii '' **'' @ label @ ascii ''**: Error generating post\<newline>''
                 | Inr post \<Rightarrow>
                     [10, 128241] @ ascii '' **'' @ label @ ascii ''**\<newline>'' @ post @ [10])"
        by (simp only: blk)
      with t show ?thesis by blast
    qed
    have "length ?parts = length platforms" by (simp add: r)
    with resp entry show ?thesis by blast
  qed
  show ?thesis
  proof (intro conjI impI allI)
    assume "detect_platforms py self create prompt = Inr platforms \<and> platforms \<noteq> []"
    then have d: "detect_platforms py self create prompt = Inr platforms"
      and ne: "platforms \<noteq> []"
      by simp_all
    show "\<exists>parts.
         create_posts py self create creates prompt history =
           Inr ([10024] @ ascii '' **Generated Posts**\<newline>'' @ concat (map (\<lambda>part. 10 # part) parts)) \<and>
         length parts = length platforms \<and>
         (\<forall>i < length platforms.
            \<exists>agent label.
              (platforms ! i, agent, label) \<in>
                set [(ascii ''x'', XAgent, ascii ''X''),
                     (ascii ''linkedin'', LinkedInAgent, ascii ''Linkedin''),
                     (ascii ''instagram'', InstagramAgent, ascii ''Instagram''),
                     (ascii ''youtube'', YouTubeAgent, ascii ''Youtube''),
                     (ascii ''school'', SchoolAgent, ascii ''School'')] \<and>
              parts ! i =
                (case create_post agent self (creates i) prompt history of
                   Inl e \<Rightarrow>
                     [10, 10060] @ ascii '' **'' @ label @ ascii ''**: Error generating post\<newline>''
                 | Inr post \<Rightarrow>
                     [10, 128241] @ ascii '' **'' @ label @ ascii ''**\<newline>'' @ post @ [10]))"
      by (rule 1 [OF d ne])
  next
    fix entries
    assume "entries = filter (\<lambda>p. agents (lower py p) \<noteq> None) platforms"
    then show "\<exists>parts.
         join [10] (response_parts_for py self creates prompt history platforms) =
           [10024] @ ascii '' **Generated Posts**\<newline>'' @ concat (map (\<lambda>part. 10 # part) parts) \<and>
         length parts = length entries \<and>
         (\<forall>i < length entries.
            \<exists>agent label.
              agents (lower py (entries ! i)) = Some agent \<and>
              label = (if lower py (entries ! i) \<in> {ascii ''x'', ascii ''twitter''} then ascii ''X''
                       else title py (entries ! i)) \<and>
              parts ! i =
                (case create_post agent self (creates i) prompt history of
                   Inl e \<Rightarrow>
                     [10, 10060] @ ascii '' **'' @ label @ ascii ''**: Error generating post\<newline>''
                 | Inr post \<Rightarrow>
                     [10, 128241] @ ascii '' **'' @ label @ ascii ''**\<newline>'' @ post @ [10]))"
      by (rule 2)
  qed
qed

lemma detect_x_linkedin:
  "detect_platforms py (OpenAIService_init default_settings)
     (\<lambda>req. ChatCompletion [Some (ascii ''x,linkedin'')]) (ascii ''Posts for X and LinkedIn'')
   = Inr [ascii ''x'', ascii ''linkedin'']"
  by (simp add: detect_platforms_def OpenAIService_complete_def try_except_def parse_platforms_def
      valid_platforms_def strip_def lower_def isascii_def lower_cp_def isupper_cp_def isspace_def
      ascii_def)

theorem create_posts_one_block_per_entry_witness:
  "\<forall>py.
     detect_platforms py (OpenAIService_init default_settings)
       (\<lambda>req. ChatCompletion [Some (ascii ''x,linkedin'')]) (ascii ''Posts for X and LinkedIn'')
       = Inr [ascii ''x'', ascii ''linkedin''] \<and>
     [ascii ''x'', ascii ''linkedin''] \<noteq> [] \<and>
     create_posts py (OpenAIService_init default_settings)
       (\<lambda>req. ChatCompletion [Some (ascii ''x,linkedin'')])
       (\<lambda>i req. if i = 0 then Raises OpenAIError else ChatCompletion [Some (ascii ''A post'')])
       (ascii ''Posts for X and LinkedIn'') []
       = Inr ([10024] @ ascii '' **Generated Posts**\<newline>'' @
              [10] @ [10, 10060] @ ascii '' **X**: Error generating post\<newline>'' @
              [10] @ [10, 128241] @ ascii '' **Linkedin**\<newline>A post\<newline>'')"
proof
  fix py
  let ?svc = "OpenAIService_init default_settings"
  let ?create = "\<lambda>req :: request. ChatCompletion [Some (ascii ''x,linkedin'')]"
  let ?creates = "\<lambda>(i :: nat) (req :: request).
      if i = 0 then Raises OpenAIError else ChatCompletion [Some (ascii ''A post'')]"
  let ?prompt = "ascii ''Posts for X and LinkedIn''"
  let ?platforms = "[ascii ''x'', ascii ''linkedin'']"
  have x: "create_post XAgent ?svc (?creates 0) ?prompt [] = Inl OpenAIError"
    by (simp add: XAgent_create_post_def OpenAIService_complete_def try_except_def)
  have l: "create_post LinkedInAgent ?svc (?creates 1) ?prompt [] = Inr (ascii ''A post'')"
    by (simp add: LinkedInAgent_create_post_def OpenAIService_complete_def try_except_def strip_def
        isspace_def ascii_def)
  have d: "detect_platforms py ?svc ?create ?prompt = Inr ?platforms"
    by (rule detect_x_linkedin)
  have ne: "?platforms \<noteq> []" by simp
  from create_posts_one_block_per_entry [of py ?svc ?create ?prompt ?platforms ?creates "[]"] d ne
  obtain parts where
    resp: "create_posts py ?svc ?create ?creates ?prompt [] =
           Inr ([10024] @ ascii '' **Generated Posts**\<newline>'' @ concat (map (\<lambda>part. 10 # part) parts))"
    and len: "length parts = length ?platforms"
    and nth: "\<forall>i < length ?platforms.
            \<exists>agent label.
              (?platforms ! i, agent, label) \<in>
                set [(ascii ''x'', XAgent, ascii ''X''),
                     (ascii ''linkedin'', LinkedInAgent, ascii ''Linkedin''),
                     (ascii ''instagram'', InstagramAgent, ascii ''Instagram''),
                     (ascii ''youtube'', YouTubeAgent, ascii ''Youtube''),
                     (ascii ''school'', SchoolAgent, ascii ''School'')] \<and>
              parts ! i =
                (case create_post agent ?svc (?creates i) ?prompt [] of
                   Inl e \<Rightarrow>
                     [10, 10060] @ ascii '' **'' @ label @ ascii ''**: Error generating post\<newline>''
                 | Inr post \<Rightarrow>
                     [10, 128241] @ ascii '' **'' @ label @ ascii ''**\<newline>'' @ post @ [10])"
    by blast
  from nth [rule_format, of 0] obtain agent0 label0 where
    m0: "(ascii ''x'', agent0, label0) \<in>
                set [(ascii ''x'', XAgent, ascii ''X''),
                     (ascii ''linkedin'', LinkedInAgent, ascii ''Linkedin''),
                     (ascii ''instagram'', InstagramAgent, ascii ''Instagram''),
                     (ascii ''youtube'', YouTubeAgent, ascii ''Youtube''),
                     (ascii ''school'', SchoolAgent, ascii ''School'')]"
    and b0: "parts ! 0 =
                (case create_post agent0 ?svc (?creates 0) ?prompt [] of
                   Inl e \<Rightarrow>
                     [10, 10060] @ ascii '' **'' @ label0 @ ascii ''**: Error generating post\<newline>''
                 | Inr post \<Rightarrow>
                     [10, 128241] @ ascii '' **'' @ label0 @ ascii ''**\<newline>'' @ post @ [10])"
    by auto
  from m0 have "agent0 = XAgent" "label0 = ascii ''X''" by (auto simp: ascii_def)
  with b0 x have p0: "parts ! 0 = [10, 10060] @ ascii '' **X**: Error generating post\<newline>''"
    by (simp add: ascii_def)
  from nth [rule_format, of 1] obtain agent1 label1 where
    m1: "(ascii ''linkedin'', agent1, label1) \<in>
                set [(ascii ''x'', XAgent, ascii ''X''),
                     (ascii ''linkedin'', LinkedInAgent, ascii ''Linkedin''),
                     (ascii ''instagram'', InstagramAgent, ascii ''Instagram''),
                     (ascii ''youtube'', YouTubeAgent, ascii ''Youtube''),
                     (ascii ''school'', SchoolAgent, ascii ''School'')]"
    and b1: "parts ! 1 =
                (case create_post agent1 ?svc (?creates 1) ?prompt [] of
                   Inl e \<Rightarrow>
                     [10, 10060] @ ascii '' **'' @ label1 @ ascii ''**: Error generating post\<newline>''
                 | Inr post \<Rightarrow>
                     [10, 128241] @ ascii '' **'' @ label1 @ ascii ''**\<newline>'' @ post @ [10])"
    by auto
  from m1 have "agent1 = LinkedInAgent" "label1 = ascii ''Linkedin''" by (auto simp: ascii_def)
  with b1 l have p1: "parts ! 1 = [10, 128241] @ ascii '' **Linkedin**\<newline>A post\<newline>''"
    by (simp add: ascii_def)
  from len have "length parts = 2" by simp
  with p0 p1 have "parts = [[10, 10060] @ ascii '' **X**: Error generating post\<newline>'',
      [10, 128241] @ ascii '' **Linkedin**\<newline>A post\<newline>'']"
    by (cases parts; cases "tl parts") auto
  with resp have "create_posts py ?svc ?create ?creates ?prompt []
       = Inr ([10024] @ ascii '' **Generated Posts**\<newline>'' @
              [10] @ [10, 10060] @ ascii '' **X**: Error generating post\<newline>'' @
              [10] @ [10, 128241] @ ascii '' **Linkedin**\<newline>A post\<newline>'')"
    by simp
  with d ne
  show "detect_platforms py ?svc ?create ?prompt = Inr ?platforms \<and>
     ?platforms \<noteq> [] \<and>
     create_posts py ?svc ?create ?creates ?prompt []
       = Inr ([10024] @ ascii '' **Generated Posts**\<newline>'' @
              [10] @ [10, 10060] @ ascii '' **X**: Error generating post\<newline>'' @
              [10] @ [10, 128241] @ ascii '' **Linkedin**\<newline>A post\<newline>'')"
    by (intro conjI)
qed

lemma select_x_x:
  "select_agents py [ascii ''x'', ascii ''x''] ([], [])
     = ([XAgent, XAgent], [ascii ''X'', ascii ''X''])"
  by (simp add: lower_canonical agents_canonical display_name_canonical)

text \<open>
  C1 as stated fails for a list that names a platform twice: the reply \<^verbatim>\<open>x,x\<close> is
  detected as two entries, and the response has two blocks for the one platform X, here
  a generated post and an error marker.
\<close>

theorem two_blocks_for_one_platform_counterexample:
  "\<forall>py.
     detect_platforms py (OpenAIService_init default_settings)
       (\<lambda>req. ChatCompletion [Some (ascii ''x,x'')]) (ascii ''Tweet this'')
       = Inr [ascii ''x'', ascii ''x''] \<and>
     create_posts py (OpenAIService_init default_settings)
       (\<lambda>req. ChatCompletion [Some (ascii ''x,x'')])
       (\<lambda>i req. if i = 0 then ChatCompletion [Some (ascii ''First'')] else Raises OpenAIError)
       (ascii ''Tweet this'') []
       = Inr ([10024] @ ascii '' **Generated Posts**\<newline>'' @
              [10] @ [10, 128241] @ ascii '' **X**\<newline>First\<newline>'' @
              [10] @ [10, 10060] @ ascii '' **X**: Error generating post\<newline>'')"
proof
  fix py
  let ?svc = "OpenAIService_init default_settings"
  let ?creates = "\<lambda>(i :: nat) (req :: request).
      if i = 0 then ChatCompletion [Some (ascii ''First'')] else Raises OpenAIError"
  have d: "detect_platforms py ?svc (\<lambda>req. ChatCompletion [Some (ascii ''x,x'')])
      (ascii ''Tweet this'') = Inr [ascii ''x'', ascii ''x'']"
    by (simp add: detect_platforms_def OpenAIService_complete_def try_except_def
        parse_platforms_def valid_platforms_def strip_def lower_def isascii_def lower_cp_def
        isupper_cp_def isspace_def ascii_def)
  have x0: "create_post XAgent ?svc (?creates 0) (ascii ''Tweet this'') [] = Inr (ascii ''First'')"
    by (simp add: XAgent_create_post_def OpenAIService_complete_def try_except_def strip_def
        isspace_def XAgent_enforce_limit_def MAX_LENGTH_def ascii_def)
  have x1: "create_post XAgent ?svc (?creates 1) (ascii ''Tweet this'') [] = Inl OpenAIError"
    by (simp add: XAgent_create_post_def OpenAIService_complete_def try_except_def)
  have g: "gather ?svc ?creates (ascii ''Tweet this'') [] [XAgent, XAgent]
      = [Inr (ascii ''First''), Inl OpenAIError]"
    unfolding gather_def using x0 x1 by (simp add: upt_rec)
  have "response_parts_for py ?svc ?creates (ascii ''Tweet this'') [] [ascii ''x'', ascii ''x'']
      = [response_header, post_block (ascii ''X'') (ascii ''First''), error_block (ascii ''X'')]"
    unfolding response_parts_for_def select_x_x using g by simp
  then have "create_posts py ?svc (\<lambda>req. ChatCompletion [Some (ascii ''x,x'')]) ?creates
      (ascii ''Tweet this'') []
       = Inr ([10024] @ ascii '' **Generated Posts**\<newline>'' @
              [10] @ [10, 128241] @ ascii '' **X**\<newline>First\<newline>'' @
              [10] @ [10, 10060] @ ascii '' **X**: Error generating post\<newline>'')"
    using d
    by (simp add: create_posts_def response_header_def post_block_def error_block_def ascii_def)
  with d
  show "detect_platforms py ?svc (\<lambda>req. ChatCompletion [Some (ascii ''x,x'')])
       (ascii ''Tweet this'') = Inr [ascii ''x'', ascii ''x''] \<and>
     create_posts py ?svc (\<lambda>req. ChatCompletion [Some (ascii ''x,x'')]) ?creates
       (ascii ''Tweet this'') []
       = Inr ([10024] @ ascii '' **Generated Posts**\<newline>'' @
              [10] @ [10, 128241] @ ascii '' **X**\<newline>First\<newline>'' @
              [10] @ [10, 10060] @ ascii '' **X**: Error generating post\<newline>'')"
    by (intro conjI)
qed

text \<open>
  C5 as stated fails: when the reply names \<^verbatim>\<open>twitter\<close> and \<^verbatim>\<open>x\<close>, detection returns
  \<^verbatim>\<open>x\<close> twice, two X tasks are created and the response has two X blocks.
\<close>

theorem aliases_not_deduplicated_counterexample:
  "\<forall>py.
     detect_platforms py (OpenAIService_init default_settings)
       (\<lambda>req. ChatCompletion [Some (ascii ''twitter,x'')]) (ascii ''Tweet this'')
       = Inr [ascii ''x'', ascii ''x''] \<and>
     select_agents py [ascii ''x'', ascii ''x''] ([], [])
       = ([XAgent, XAgent], [ascii ''X'', ascii ''X'']) \<and>
     create_posts py (OpenAIService_init default_settings)
       (\<lambda>req. ChatCompletion [Some (ascii ''twitter,x'')])
       (\<lambda>i req. ChatCompletion [Some (ascii ''Hi'')])
       (ascii ''Tweet this'') []
       = Inr (join [10]
           [response_header,
            post_block (ascii ''X'') (ascii ''Hi''),
            post_block (ascii ''X'') (ascii ''Hi'')])"
proof
  fix py
  let ?svc = "OpenAIService_init default_settings"
  have d: "detect_platforms py ?svc (\<lambda>req. ChatCompletion [Some (ascii ''twitter,x'')])
      (ascii ''Tweet this'') = Inr [ascii ''x'', ascii ''x'']"
    by (simp add: detect_platforms_def OpenAIService_complete_def try_except_def
        parse_platforms_def valid_platforms_def strip_def lower_def isascii_def lower_cp_def
        isupper_cp_def isspace_def ascii_def)
  have s: "select_agents py [ascii ''x'', ascii ''x''] ([], [])
      = ([XAgent, XAgent], [ascii ''X'', ascii ''X''])"
    by (rule select_x_x)
  have x: "create_post XAgent ?svc (\<lambda>req. ChatCompletion [Some (ascii ''Hi'')])
      (ascii ''Tweet this'') [] = Inr (ascii ''Hi'')"
    by (simp add: XAgent_create_post_def OpenAIService_complete_def try_except_def strip_def
        isspace_def XAgent_enforce_limit_def MAX_LENGTH_def ascii_def)
  have g: "gather ?svc (\<lambda>i req. ChatCompletion [Some (ascii ''Hi'')]) (ascii ''Tweet this'') []
      [XAgent, XAgent] = [Inr (ascii ''Hi''), Inr (ascii ''Hi'')]"
    unfolding gather_def using x by (simp add: upt_rec)
  have "response_parts_for py ?svc (\<lambda>i req. ChatCompletion [Some (ascii ''Hi'')])
      (ascii ''Tweet this'') [] [ascii ''x'', ascii ''x'']
      = [response_header, post_block (ascii ''X'') (ascii ''Hi''),
         post_block (ascii ''X'') (ascii ''Hi'')]"
    unfolding response_parts_for_def s using g by simp
  with d have "create_posts py ?svc (\<lambda>req. ChatCompletion [Some (ascii ''twitter,x'')])
       (\<lambda>i req. ChatCompletion [Some (ascii ''Hi'')]) (ascii ''Tweet this'') []
       = Inr (join [10]
           [response_header,
            post_block (ascii ''X'') (ascii ''Hi''),
            post_block (ascii ''X'') (ascii ''Hi'')])"
    by (simp add: create_posts_def)
  with d s
  show "detect_platforms py ?svc (\<lambda>req. ChatCompletion [Some (ascii ''twitter,x'')])
       (ascii ''Tweet this'') = Inr [ascii ''x'', ascii ''x''] \<and>
     select_agents py [ascii ''x'', ascii ''x''] ([], [])
       = ([XAgent, XAgent], [ascii ''X'', ascii ''X'']) \<and>
     create_posts py ?svc (\<lambda>req. ChatCompletion [Some (ascii ''twitter,x'')])
       (\<lambda>i req. ChatCompletion [Some (ascii ''Hi'')]) (ascii ''Tweet this'') []
       = Inr (join [10]
           [response_header,
            post_block (ascii ''X'') (ascii ''Hi''),
            post_block (ascii ''X'') (ascii ''Hi'')])"
    by (intro conjI)
qed

text \<open>
  C5 (as amended). Aliases are normalised, not deduplicated. Detection replaces
  \<^verbatim>\<open>twitter\<close> by \<^verbatim>\<open>x\<close> and returns one entry for every known token of the reply; both
  names select the X generator and the label \<^verbatim>\<open>X\<close>. The coordinator creates one task,
  gathers one result and writes one block for every entry of the detected list that has an
  agent, repetitions included.
\<close>

theorem one_invocation_per_detected_entry:
  "fst (select_agents py platforms ([], [])) = List.map_filter (\<lambda>p. agents (lower py p)) platforms \<and>
   length (gather self creates prompt history (fst (select_agents py platforms ([], []))))
     = length (recognized py platforms) \<and>
   length (response_parts_for py self creates prompt history platforms)
     = 1 + length (recognized py platforms) \<and>
   agents (lower py (ascii ''twitter'')) = agents (lower py (ascii ''x'')) \<and>
   display_name py (ascii ''twitter'') = display_name py (ascii ''x'') \<and>
   length (parse_platforms result)
     = length (filter (\<lambda>p. p \<in> set valid_platforms) (map strip (split 44 result))) \<and>
   ascii ''twitter'' \<notin> set (parse_platforms result)"
proof -
  have "agents (lower py (ascii ''twitter'')) = agents (lower py (ascii ''x''))"
    "display_name py (ascii ''twitter'') = display_name py (ascii ''x'')"
    by (simp_all add: lower_canonical agents_canonical display_name_canonical)
  moreover have "ascii ''twitter'' \<notin> set (parse_platforms result)"
    by (auto simp: parse_platforms_def Let_def ascii_def)
  ultimately show ?thesis
    by (simp add: select_agents_acc length_gather map_filter_recognized response_parts_for_eq
        parse_platforms_def Let_def)
qed

section \<open>History retrieval\<close>








end
